theory Spec2Isabelle
  imports Main "HOL-Library.AList"
begin

section \<open>Python values, exceptions and string operations\<close>

text \<open>
  The module \<^verbatim>\<open>rbf_node.py\<close> is a layer of Python functions over the commands of the
  host application (\<^verbatim>\<open>maya.cmds\<close>, imported as \<^verbatim>\<open>mc\<close>). The Python of the module is
  embedded here; the host commands are a parameter of every function (the record
  \<open>maya\<close> below), since their code is not part of the module.

  An exception is a value: its class and its message. \<^verbatim>\<open>NotImplementedError\<close> is a
  subclass of \<^verbatim>\<open>RuntimeError\<close> in Python, which an \<^verbatim>\<open>except RuntimeError\<close> clause
  therefore catches as well.
\<close>

datatype pyclass =
  RuntimeError | NotImplementedError | ValueError | TypeError | IndexError | KeyError

datatype exc = Exc pyclass string

fun exc_class :: "exc \<Rightarrow> pyclass" where
  "exc_class (Exc c m) = c"

fun subclass_of :: "pyclass \<Rightarrow> pyclass \<Rightarrow> bool" where
  "subclass_of c k = (c = k \<or> (c = NotImplementedError \<and> k = RuntimeError))"

definition isinstance :: "exc \<Rightarrow> pyclass \<Rightarrow> bool" where
  "isinstance e k = subclass_of (exc_class e) k"

text \<open>
  The values the host hands back for an attribute, and the values the methods of the
  class return: \<^verbatim>\<open>None\<close>, a string, an integer, a list. A list is not hashable.
\<close>

datatype pyval = PNone | PStr string | PInt int | PList "pyval list"

fun hashable :: "pyval \<Rightarrow> bool" where
  "hashable (PList xs) = False"
| "hashable v = True"

text \<open>\<^verbatim>\<open>v[0]\<close>: the first element of a list or string; an empty sequence raises
  IndexError, \<^verbatim>\<open>None\<close> and numbers are not subscriptable.\<close>

fun py_index0 :: "pyval \<Rightarrow> exc + pyval" where
  "py_index0 (PList []) = Inl (Exc IndexError ''list index out of range'')"
| "py_index0 (PList (x # xs)) = Inr x"
| "py_index0 (PStr []) = Inl (Exc IndexError ''string index out of range'')"
| "py_index0 (PStr (c # cs)) = Inr (PStr [c])"
| "py_index0 PNone = Inl (Exc TypeError ''object is not subscriptable'')"
| "py_index0 (PInt i) = Inl (Exc TypeError ''object is not subscriptable'')"

text \<open>
  \<^verbatim>\<open>template.format(*args)\<close> for templates made of literal characters, the
  automatically numbered field \<^verbatim>\<open>{}\<close> and the escapes \<^verbatim>\<open>{{\<close> and \<^verbatim>\<open>}}\<close> (the module
  uses only \<^verbatim>\<open>"{}{}"\<close> and \<^verbatim>\<open>"{}.{}"\<close>). Fields are filled from left to right; a
  field with no argument left raises IndexError at that field. Any other use of a
  brace is reported as a ValueError here: named and indexed fields are outside the
  fragment.
\<close>

fun py_format :: "string \<Rightarrow> string list \<Rightarrow> exc + string" where
  "py_format [] args = Inr []"
| "py_format [c] args =
     (if c = CHR ''{'' \<or> c = CHR ''}''
      then Inl (Exc ValueError ''Single brace encountered in format string'')
      else Inr [c])"
| "py_format (c # d # cs) args =
     (if c = CHR ''{'' \<and> d = CHR ''}'' then
        (case args of
           [] \<Rightarrow> Inl (Exc IndexError ''tuple index out of range'')
         | a # as \<Rightarrow>
             (case py_format cs as of Inl e \<Rightarrow> Inl e | Inr r \<Rightarrow> Inr (a @ r)))
      else if (c = CHR ''{'' \<and> d = CHR ''{'') \<or> (c = CHR ''}'' \<and> d = CHR ''}'') then
        (case py_format cs args of Inl e \<Rightarrow> Inl e | Inr r \<Rightarrow> Inr (c # r))
      else if c = CHR ''{'' \<or> c = CHR ''}'' then
        Inl (Exc ValueError ''format field outside the modelled fragment'')
      else
        (case py_format (d # cs) args of Inl e \<Rightarrow> Inl e | Inr r \<Rightarrow> Inr (c # r)))"

text \<open>\<^verbatim>\<open>s.endswith(suffix)\<close>.\<close>

definition endswith :: "string \<Rightarrow> string \<Rightarrow> bool" where
  "endswith s suf =
     (length suf \<le> length s \<and> drop (length s - length suf) s = suf)"

text \<open>\<^verbatim>\<open>s.replace(old, new)\<close>: every occurrence of \<open>old\<close>, found from the left without
  overlap, is replaced; an empty \<open>old\<close> matches before every character and at the end.\<close>

function py_replace :: "string \<Rightarrow> string \<Rightarrow> string \<Rightarrow> string" where
  "py_replace old new s =
     (if old = [] then new @ concat (map (\<lambda>c. c # new) s)
      else if s = [] then []
      else if take (length old) s = old
        then new @ py_replace old new (drop (length old) s)
      else hd s # py_replace old new (tl s))"
  by pat_completeness auto
termination
  by (relation "measure (\<lambda>(old, new, s). length s)") auto

declare py_replace.simps [simp del]

section \<open>Constants of the module\<close>

definition DRIVEN_SUFFIX :: string where
  "DRIVEN_SUFFIX = ''_driven''"

definition CTL_SUFFIX :: string where
  "CTL_SUFFIX = ''_ctl''"

definition RBF_SETUP_ATTR :: string where
  "RBF_SETUP_ATTR = ''rbf_setup_name''"

definition SUPPORTED_RBF_NODES :: "string list" where
  "SUPPORTED_RBF_NODES = [''weightDriver'']"

definition DRIVER_CTL_ATTR_NAME :: string where
  "DRIVER_CTL_ATTR_NAME = ''driverControlName''"

definition RBF_SCALE_ATTR :: string where
  "RBF_SCALE_ATTR = ''RBF_Multiplier''"

section \<open>The host commands\<close>

text \<open>
  A host command runs on the scene (of type \<open>'s\<close>): it returns a value or raises, and
  leaves a scene behind in both cases. A query command reads the scene only.
\<close>

type_synonym ('a, 's) cmd = "'s \<Rightarrow> (exc + 'a) \<times> 's"

type_synonym ('a, 's) query = "'s \<Rightarrow> exc + 'a"

text \<open>The two ways the module calls \<^verbatim>\<open>mc.addAttr\<close>:
  \<^verbatim>\<open>at="float", dv=.., min=.., max=.., k=..\<close> and \<^verbatim>\<open>dt="string"\<close>.\<close>

datatype attrspec = FloatAttr int int int bool | StringAttr

text \<open>
  The commands of \<^verbatim>\<open>maya.cmds\<close> the embedded functions call, with the flags they are
  called with. \<^verbatim>\<open>listRelatives\<close> and \<^verbatim>\<open>ls\<close> return a list or \<^verbatim>\<open>None\<close>.
  \<open>set_iter xs\<close> is the order in which Python iterates over \<^verbatim>\<open>set(xs)\<close>, which the
  language leaves open.
\<close>

record 's maya =
  mc_listRelatives_p :: "string \<Rightarrow> (string list option, 's) query"
  mc_group_em :: "string \<Rightarrow> string \<Rightarrow> (string, 's) cmd"
  mc_parent :: "string \<Rightarrow> string \<Rightarrow> (unit, 's) cmd"
  mc_addAttr :: "string \<Rightarrow> string \<Rightarrow> attrspec \<Rightarrow> (unit, 's) cmd"
  mc_deleteAttr :: "string \<Rightarrow> (unit, 's) cmd"
  mc_getAttr :: "string \<Rightarrow> (pyval, 's) query"
  mc_setAttr_string :: "string \<Rightarrow> string \<Rightarrow> (unit, 's) cmd"
  mc_attributeQuery_ex :: "string \<Rightarrow> string \<Rightarrow> (bool, 's) query"
  mc_ls_type :: "string list \<Rightarrow> (string list option, 's) query"
  mc_objExists :: "string \<Rightarrow> (bool, 's) query"
  mc_nodeType :: "string \<Rightarrow> (string, 's) query"
  set_iter :: "string list \<Rightarrow> string list"

text \<open>Sequencing, with an exception ending the sequence.\<close>

definition bind_cmd :: "('a, 's) cmd \<Rightarrow> ('a \<Rightarrow> ('b, 's) cmd) \<Rightarrow> ('b, 's) cmd" where
  "bind_cmd m f s = (case m s of (Inl e, s') \<Rightarrow> (Inl e, s') | (Inr a, s') \<Rightarrow> f a s')"

definition return_cmd :: "'a \<Rightarrow> ('a, 's) cmd" where
  "return_cmd a s = (Inr a, s)"

definition raise_cmd :: "exc \<Rightarrow> ('a, 's) cmd" where
  "raise_cmd e s = (Inl e, s)"

text \<open>A query, or a computation of Python alone, run as a command: the scene stays.\<close>

definition query_cmd :: "('a, 's) query \<Rightarrow> ('a, 's) cmd" where
  "query_cmd q s = (q s, s)"

definition pure_cmd :: "exc + 'a \<Rightarrow> ('a, 's) cmd" where
  "pure_cmd r s = (r, s)"

text \<open>\<^verbatim>\<open>try: body  except cls: handler\<close>.\<close>

definition try_except :: "('a, 's) cmd \<Rightarrow> pyclass \<Rightarrow> ('a, 's) cmd \<Rightarrow> ('a, 's) cmd" where
  "try_except body cls handler s =
     (case body s of
        (Inl e, s') \<Rightarrow> if isinstance e cls then handler s' else (Inl e, s')
      | (Inr a, s') \<Rightarrow> (Inr a, s'))"

text \<open>\<^verbatim>\<open>"{}.{}".format(node, attr)\<close>: the name of a plug.\<close>

definition plug_name :: "string \<Rightarrow> string \<Rightarrow> exc + string" where
  "plug_name node attr = py_format ''{}.{}'' [node, attr]"

section \<open>General functions of the module\<close>

text \<open>\<^verbatim>\<open>x or None\<close> for a list or \<^verbatim>\<open>None\<close>: an empty list counts as false.\<close>

fun or_None :: "string list option \<Rightarrow> string list option" where
  "or_None (Some (x # xs)) = Some (x # xs)"
| "or_None r = None"

text \<open>\<^verbatim>\<open>xs[0]\<close> on a list of names.\<close>

fun first_of :: "string list \<Rightarrow> exc + string" where
  "first_of [] = Inl (Exc IndexError ''list index out of range'')"
| "first_of (x # xs) = Inr x"

definition addDrivenGroup :: "'s maya \<Rightarrow> string \<Rightarrow> (string, 's) cmd" where
  "addDrivenGroup mc node =
     bind_cmd (query_cmd (mc_listRelatives_p mc node)) (\<lambda>r.
       case or_None r of
         None \<Rightarrow> return_cmd node
       | Some parentOfTarget \<Rightarrow>
           bind_cmd
             (pure_cmd
               (if endswith node CTL_SUFFIX
                then Inr (py_replace CTL_SUFFIX DRIVEN_SUFFIX node)
                else py_format ''{}{}'' [DRIVEN_SUFFIX]))
             (\<lambda>drivenName.
               bind_cmd (pure_cmd (first_of parentOfTarget)) (\<lambda>p.
                 bind_cmd (mc_group_em mc drivenName p) (\<lambda>drivenName'.
                   bind_cmd (mc_parent mc node drivenName') (\<lambda>_.
                     return_cmd drivenName')))))"

definition createRBFToggleAttr :: "'s maya \<Rightarrow> string \<Rightarrow> (unit, 's) cmd" where
  "createRBFToggleAttr mc node =
     try_except (mc_addAttr mc node RBF_SCALE_ATTR (FloatAttr 1 0 1 True))
       RuntimeError (return_cmd ())"

definition deleteRBFToggleAttr :: "'s maya \<Rightarrow> string \<Rightarrow> (unit, 's) cmd" where
  "deleteRBFToggleAttr mc node =
     try_except
       (bind_cmd (pure_cmd (plug_name node RBF_SCALE_ATTR)) (mc_deleteAttr mc))
       ValueError (return_cmd ())"

definition createDriverControlAttr :: "'s maya \<Rightarrow> string \<Rightarrow> (unit, 's) cmd" where
  "createDriverControlAttr mc node =
     try_except (mc_addAttr mc node DRIVER_CTL_ATTR_NAME StringAttr)
       RuntimeError (return_cmd ())"

text \<open>\<^verbatim>\<open>getDriverControlAttr\<close> only reads the scene; its \<^verbatim>\<open>try\<close> is written out.\<close>

definition getDriverControlAttr :: "'s maya \<Rightarrow> string \<Rightarrow> (pyval, 's) query" where
  "getDriverControlAttr mc node s =
     (case (case plug_name node DRIVER_CTL_ATTR_NAME of
              Inl e \<Rightarrow> Inl e
            | Inr plug \<Rightarrow> mc_getAttr mc plug s) of
        Inl e \<Rightarrow> if isinstance e ValueError then Inr (PStr []) else Inl e
      | Inr v \<Rightarrow> Inr v)"

definition setDriverControlAttr :: "'s maya \<Rightarrow> string \<Rightarrow> string \<Rightarrow> (unit, 's) cmd" where
  "setDriverControlAttr mc node controlName =
     bind_cmd (query_cmd (mc_attributeQuery_ex mc DRIVER_CTL_ATTR_NAME node)) (\<lambda>ex.
       bind_cmd (if \<not> ex then createDriverControlAttr mc node else return_cmd ()) (\<lambda>_.
         bind_cmd (pure_cmd (plug_name node DRIVER_CTL_ATTR_NAME)) (\<lambda>plug.
           mc_setAttr_string mc plug controlName)))"

text \<open>\<^verbatim>\<open>x or []\<close> for a list or \<^verbatim>\<open>None\<close>.\<close>

fun or_empty :: "string list option \<Rightarrow> string list" where
  "or_empty None = []"
| "or_empty (Some xs) = xs"

definition getSceneRBFNodes :: "'s maya \<Rightarrow> (string list, 's) query" where
  "getSceneRBFNodes mc s =
     (case mc_ls_type mc SUPPORTED_RBF_NODES s of
        Inl e \<Rightarrow> Inl e
      | Inr r \<Rightarrow> Inr (or_empty r))"

text \<open>The list comprehension of \<^verbatim>\<open>getSceneSetupNodes\<close>, over the nodes in the order
  of iteration: the first query that raises ends it.\<close>

fun with_setup_attr :: "'s maya \<Rightarrow> string list \<Rightarrow> (string list, 's) query" where
  "with_setup_attr mc [] s = Inr []"
| "with_setup_attr mc (rbf # rest) s =
     (case mc_attributeQuery_ex mc RBF_SETUP_ATTR rbf s of
        Inl e \<Rightarrow> Inl e
      | Inr ex \<Rightarrow>
          (case with_setup_attr mc rest s of
             Inl e \<Rightarrow> Inl e
           | Inr out \<Rightarrow> Inr (if ex then rbf # out else out)))"

text \<open>\<^verbatim>\<open>set(None)\<close> raises TypeError.\<close>

definition getSceneSetupNodes :: "'s maya \<Rightarrow> (string list, 's) query" where
  "getSceneSetupNodes mc s =
     (case mc_ls_type mc SUPPORTED_RBF_NODES s of
        Inl e \<Rightarrow> Inl e
      | Inr None \<Rightarrow> Inl (Exc TypeError ''NoneType object is not iterable'')
      | Inr (Some xs) \<Rightarrow> with_setup_attr mc (set_iter mc xs) s)"

text \<open>
  The dict of \<^verbatim>\<open>getRbfSceneSetupsInfo\<close>, as an association list in the order of
  insertion: a key is a hashable value, an entry the list of nodes under that key.
\<close>

type_synonym setups = "(pyval \<times> string list) list"

text \<open>The loop over the setup nodes; \<open>d\<close> is \<^verbatim>\<open>setups_dict\<close>.\<close>

fun setups_loop :: "'s maya \<Rightarrow> string list \<Rightarrow> setups \<Rightarrow> (setups, 's) query" where
  "setups_loop mc [] d s = Inr d"
| "setups_loop mc (rbfNode # rest) d s =
     (case plug_name rbfNode RBF_SETUP_ATTR of
        Inl e \<Rightarrow> Inl e
      | Inr plug \<Rightarrow>
          (case mc_getAttr mc plug s of
             Inl e \<Rightarrow> Inl e
           | Inr setupName \<Rightarrow>
               if setupName = PStr [] then
                 (case map_of d (PStr ''empty'') of
                    None \<Rightarrow> Inl (Exc KeyError ''empty'')
                  | Some l \<Rightarrow>
                      setups_loop mc rest (AList.update (PStr ''empty'') (l @ [rbfNode]) d) s)
               else if \<not> hashable setupName then
                 Inl (Exc TypeError ''unhashable type'')
               else
                 (case map_of d setupName of
                    Some l \<Rightarrow>
                      setups_loop mc rest (AList.update setupName (l @ [rbfNode]) d) s
                  | None \<Rightarrow>
                      setups_loop mc rest (AList.update setupName [rbfNode] d) s)))"

definition getRbfSceneSetupsInfo :: "'s maya \<Rightarrow> bool \<Rightarrow> (setups, 's) query" where
  "getRbfSceneSetupsInfo mc includeEmpty s =
     (case getSceneSetupNodes mc s of
        Inl e \<Rightarrow> Inl e
      | Inr nodes \<Rightarrow>
          (case setups_loop mc nodes [(PStr ''empty'', [])] s of
             Inl e \<Rightarrow> Inl e
           | Inr setups_dict \<Rightarrow>
               if \<not> includeEmpty then
                 (case map_of setups_dict (PStr ''empty'') of
                    None \<Rightarrow> Inl (Exc KeyError ''empty'')
                  | Some l \<Rightarrow> Inr (AList.delete (PStr ''empty'') setups_dict))
               else Inr setups_dict))"

definition setSetupName :: "'s maya \<Rightarrow> string \<Rightarrow> string \<Rightarrow> (unit, 's) cmd" where
  "setSetupName mc node setupName =
     bind_cmd (query_cmd (mc_attributeQuery_ex mc RBF_SETUP_ATTR node)) (\<lambda>ex.
       bind_cmd (if \<not> ex then mc_addAttr mc node RBF_SETUP_ATTR StringAttr
                 else return_cmd ()) (\<lambda>_.
         bind_cmd (pure_cmd (plug_name node RBF_SETUP_ATTR)) (\<lambda>plug.
           mc_setAttr_string mc plug setupName)))"

definition getSetupName :: "'s maya \<Rightarrow> string \<Rightarrow> (pyval, 's) query" where
  "getSetupName mc node s =
     (case mc_attributeQuery_ex mc RBF_SETUP_ATTR node s of
        Inl e \<Rightarrow> Inl e
      | Inr ex \<Rightarrow>
          if \<not> ex then Inr PNone
          else (case plug_name node RBF_SETUP_ATTR of
                  Inl e \<Rightarrow> Inl e
                | Inr plug \<Rightarrow> mc_getAttr mc plug s))"

section \<open>The class RBFNode\<close>

text \<open>
  An instance holds the attributes \<^verbatim>\<open>name\<close>, \<^verbatim>\<open>transformNode\<close> and \<^verbatim>\<open>rbfType\<close>
  (\<open>None\<close> while \<^verbatim>\<open>rbfType\<close> has not been assigned). A method runs on the instance and
  the scene together.
\<close>

record rbfnode =
  name :: string
  transformNode :: pyval
  rbfType :: "string option"

type_synonym ('a, 's) meth = "('a, rbfnode \<times> 's) cmd"

text \<open>
  The methods a subclass overrides and other methods call through \<^verbatim>\<open>self\<close>:
  the instance is built, and \<^verbatim>\<open>getDriverControlAttr\<close> runs, over whichever
  implementations the class of the instance provides.
\<close>

record 's rbf_methods =
  create :: "(unit, 's) meth"
  getTransformParent :: "(pyval, 's) meth"
  lengthenCompoundAttrs :: "(unit, 's) meth"
  getDriverNode :: "(pyval, 's) meth"

text \<open>The methods as the base class defines them. A method whose body is the
  expression statement \<^verbatim>\<open>NotImplementedError()\<close> builds the exception, drops it and
  returns \<^verbatim>\<open>None\<close>.\<close>

definition RBFNode_create :: "(unit, 's) meth" where
  "RBFNode_create = raise_cmd (Exc NotImplementedError [])"

definition RBFNode_getPoseInfo :: "(pyval, 's) meth" where
  "RBFNode_getPoseInfo = raise_cmd (Exc NotImplementedError [])"

definition RBFNode_getNodeInfo :: "(pyval, 's) meth" where
  "RBFNode_getNodeInfo = raise_cmd (Exc NotImplementedError [])"

definition RBFNode_lengthenCompoundAttrs :: "(unit, 's) meth" where
  "RBFNode_lengthenCompoundAttrs = return_cmd ()"

definition RBFNode_addPose :: "pyval \<Rightarrow> pyval \<Rightarrow> pyval \<Rightarrow> (pyval, 's) meth" where
  "RBFNode_addPose poseInput poseValue posesIndex = raise_cmd (Exc NotImplementedError [])"

definition RBFNode_deletePose :: "pyval \<Rightarrow> (pyval, 's) meth" where
  "RBFNode_deletePose indexToPop = raise_cmd (Exc NotImplementedError [])"

definition RBFNode_getDriverNode :: "(pyval, 's) meth" where
  "RBFNode_getDriverNode = raise_cmd (Exc NotImplementedError [])"

definition RBFNode_getDriverNodeAttributes :: "(pyval, 's) meth" where
  "RBFNode_getDriverNodeAttributes = raise_cmd (Exc NotImplementedError [])"

definition RBFNode_getDrivenNode :: "(pyval, 's) meth" where
  "RBFNode_getDrivenNode = raise_cmd (Exc NotImplementedError [])"

definition RBFNode_getDrivenNodeAttributes :: "(pyval, 's) meth" where
  "RBFNode_getDrivenNodeAttributes = raise_cmd (Exc NotImplementedError [])"

definition RBFNode_setDriverNode :: "pyval \<Rightarrow> pyval \<Rightarrow> (pyval, 's) meth" where
  "RBFNode_setDriverNode driverNode driverAttrs = raise_cmd (Exc NotImplementedError [])"

definition RBFNode_setDrivenNode :: "pyval \<Rightarrow> pyval \<Rightarrow> bool \<Rightarrow> (pyval, 's) meth" where
  "RBFNode_setDrivenNode drivenNode drivenAttrs parent = raise_cmd (Exc NotImplementedError [])"

definition RBFNode_getTransformParent :: "(pyval, 's) meth" where
  "RBFNode_getTransformParent = return_cmd PNone"

definition RBFNode_copyPoses :: "pyval \<Rightarrow> bool \<Rightarrow> (pyval, 's) meth" where
  "RBFNode_copyPoses nodeB emptyPoseValues = return_cmd PNone"

definition RBFNode_recallDriverPose :: "pyval \<Rightarrow> (pyval, 's) meth" where
  "RBFNode_recallDriverPose poseIndex = return_cmd PNone"

definition RBFNode_forceEvaluation :: "(pyval, 's) meth" where
  "RBFNode_forceEvaluation = return_cmd PNone"

definition RBFNode_getRBFToggleAttr :: "(pyval, 's) meth" where
  "RBFNode_getRBFToggleAttr = return_cmd PNone"

definition RBFNode_methods :: "'s rbf_methods" where
  "RBFNode_methods =
     \<lparr>create = RBFNode_create,
      getTransformParent = RBFNode_getTransformParent,
      lengthenCompoundAttrs = RBFNode_lengthenCompoundAttrs,
      getDriverNode = RBFNode_getDriverNode\<rparr>"

text \<open>A command of the module run from a method: the instance stays.\<close>

definition on_scene :: "('a, 's) cmd \<Rightarrow> ('a, 's) meth" where
  "on_scene m w = (case m (snd w) of (r, s') \<Rightarrow> (r, (fst w, s')))"

text \<open>An assignment to an attribute of \<^verbatim>\<open>self\<close>.\<close>

definition assign :: "(rbfnode \<Rightarrow> rbfnode) \<Rightarrow> (unit, 's) meth" where
  "assign f w = (Inr (), (f (fst w), snd w))"

text \<open>The test of \<^verbatim>\<open>__init__\<close>:
  \<^verbatim>\<open>mc.objExists(name) and mc.nodeType(name) in SUPPORTED_RBF_NODES\<close>.\<close>

definition exists_supported :: "'s maya \<Rightarrow> string \<Rightarrow> (bool, 's) query" where
  "exists_supported mc nm s =
     (case mc_objExists mc nm s of
        Inl e \<Rightarrow> Inl e
      | Inr ex \<Rightarrow>
          if \<not> ex then Inr False
          else (case mc_nodeType mc nm s of
                  Inl e \<Rightarrow> Inl e
                | Inr t \<Rightarrow> Inr (t \<in> set SUPPORTED_RBF_NODES)))"

text \<open>The body of \<^verbatim>\<open>__init__\<close> after its two first assignments, as a method.\<close>

definition init_body :: "'s maya \<Rightarrow> 's rbf_methods \<Rightarrow> string \<Rightarrow> (unit, 's) meth" where
  "init_body mc cls nm =
     bind_cmd (on_scene (query_cmd (exists_supported mc nm))) (\<lambda>b.
       if b then
         bind_cmd (on_scene (query_cmd (mc_nodeType mc nm))) (\<lambda>t.
           bind_cmd (assign (\<lambda>self. self\<lparr>rbfType := Some t\<rparr>)) (\<lambda>_.
             bind_cmd (getTransformParent cls) (\<lambda>p.
               bind_cmd (assign (\<lambda>self. self\<lparr>transformNode := p\<rparr>)) (\<lambda>_.
                 lengthenCompoundAttrs cls))))
       else
         bind_cmd (create cls) (\<lambda>_.
           (\<lambda>w. on_scene (createDriverControlAttr mc (name (fst w))) w)))"

text \<open>\<^verbatim>\<open>RBFNode(name)\<close>: the instance when \<^verbatim>\<open>__init__\<close> returns, its exception
  otherwise, and the scene it leaves.\<close>

definition RBFNode_init :: "'s maya \<Rightarrow> 's rbf_methods \<Rightarrow> string \<Rightarrow> (rbfnode, 's) cmd" where
  "RBFNode_init mc cls nm s =
     (case init_body mc cls nm (\<lparr>name = nm, transformNode = PNone, rbfType = None\<rparr>, s) of
        (Inl e, w) \<Rightarrow> (Inl e, snd w)
      | (Inr u, w) \<Rightarrow> (Inr (fst w), snd w))"

definition RBFNode_getDriverControlAttr :: "'s maya \<Rightarrow> 's rbf_methods \<Rightarrow> (pyval, 's) meth" where
  "RBFNode_getDriverControlAttr mc cls =
     bind_cmd (\<lambda>w. on_scene (query_cmd (getDriverControlAttr mc (name (fst w)))) w)
       (\<lambda>driverControl.
          if driverControl = PStr [] then
            bind_cmd (getDriverNode cls) (\<lambda>r. pure_cmd (py_index0 r))
          else return_cmd driverControl)"

section \<open>A host to run the functions on\<close>

text \<open>
  The theorems below hold for every host. To run the functions on concrete scenes, a
  small host is written out here: a scene is the table of its nodes with their types,
  the table of their parents, the table of the plugs \<^verbatim>\<open>node.attr\<close> with their
  values, and the nodes that are locked (a locked node takes no new attribute). It
  stands for no more than one host among those the theorems range over.
\<close>

record scene =
  node_types :: "(string \<times> string) list"
  node_parents :: "(string \<times> string) list"
  plugs :: "(string \<times> pyval) list"
  locked :: "string list"

definition no_object :: "pyclass \<Rightarrow> exc" where
  "no_object c = Exc c ''No object matches name''"

definition ref_listRelatives_p :: "string \<Rightarrow> (string list option, scene) query" where
  "ref_listRelatives_p n s =
     (case map_of (node_types s) n of
        None \<Rightarrow> Inl (no_object ValueError)
      | Some t \<Rightarrow>
          (case map_of (node_parents s) n of None \<Rightarrow> Inr None | Some p \<Rightarrow> Inr (Some [p])))"

definition ref_group_em :: "string \<Rightarrow> string \<Rightarrow> (string, scene) cmd" where
  "ref_group_em nm p s =
     (if map_of (node_types s) p = None \<or> map_of (node_types s) nm \<noteq> None
      then (Inl (no_object ValueError), s)
      else (Inr nm, s\<lparr>node_types := (nm, ''transform'') # node_types s,
                       node_parents := (nm, p) # node_parents s\<rparr>))"

definition ref_parent :: "string \<Rightarrow> string \<Rightarrow> (unit, scene) cmd" where
  "ref_parent n p s =
     (if map_of (node_types s) p = None \<or> map_of (node_types s) n = None
      then (Inl (no_object ValueError), s)
      else (Inr (), s\<lparr>node_parents := AList.update n p (node_parents s)\<rparr>))"

fun initial_value :: "attrspec \<Rightarrow> pyval" where
  "initial_value (FloatAttr dv lo hi k) = PInt dv"
| "initial_value StringAttr = PNone"

definition ref_addAttr :: "string \<Rightarrow> string \<Rightarrow> attrspec \<Rightarrow> (unit, scene) cmd" where
  "ref_addAttr n ln spec s =
     (if map_of (node_types s) n = None then (Inl (no_object ValueError), s)
      else if n \<in> set (locked s)
        then (Inl (Exc RuntimeError ''The node is locked.''), s)
      else if map_of (plugs s) (n @ ''.'' @ ln) \<noteq> None
        then (Inl (Exc RuntimeError ''Found no valid items to add the attribute to.''), s)
      else (Inr (), s\<lparr>plugs := AList.update (n @ ''.'' @ ln) (initial_value spec) (plugs s)\<rparr>))"

definition ref_deleteAttr :: "string \<Rightarrow> (unit, scene) cmd" where
  "ref_deleteAttr plug s =
     (if map_of (plugs s) plug = None then (Inl (no_object ValueError), s)
      else (Inr (), s\<lparr>plugs := AList.delete plug (plugs s)\<rparr>))"

definition ref_getAttr :: "string \<Rightarrow> (pyval, scene) query" where
  "ref_getAttr plug s =
     (case map_of (plugs s) plug of None \<Rightarrow> Inl (no_object ValueError) | Some v \<Rightarrow> Inr v)"

definition ref_setAttr_string :: "string \<Rightarrow> string \<Rightarrow> (unit, scene) cmd" where
  "ref_setAttr_string plug v s =
     (if map_of (plugs s) plug = None then (Inl (no_object RuntimeError), s)
      else (Inr (), s\<lparr>plugs := AList.update plug (PStr v) (plugs s)\<rparr>))"

definition ref_attributeQuery_ex :: "string \<Rightarrow> string \<Rightarrow> (bool, scene) query" where
  "ref_attributeQuery_ex attr n s =
     (if map_of (plugs s) (n @ ''.'' @ attr) \<noteq> None then Inr True
      else if map_of (node_types s) n = None then Inl (no_object RuntimeError)
      else Inr False)"

definition ref_has_type :: "scene \<Rightarrow> string list \<Rightarrow> string \<Rightarrow> bool" where
  "ref_has_type s ts n =
     (case map_of (node_types s) n of None \<Rightarrow> False | Some t \<Rightarrow> t \<in> set ts)"

definition ref_ls_type :: "string list \<Rightarrow> (string list option, scene) query" where
  "ref_ls_type ts s = Inr (Some (filter (ref_has_type s ts) (map fst (node_types s))))"

definition ref_objExists :: "string \<Rightarrow> (bool, scene) query" where
  "ref_objExists n s = Inr (map_of (node_types s) n \<noteq> None)"

definition ref_nodeType :: "string \<Rightarrow> (string, scene) query" where
  "ref_nodeType n s =
     (case map_of (node_types s) n of None \<Rightarrow> Inl (no_object RuntimeError) | Some t \<Rightarrow> Inr t)"

definition ref_host :: "scene maya" where
  "ref_host =
     \<lparr>mc_listRelatives_p = ref_listRelatives_p,
      mc_group_em = ref_group_em,
      mc_parent = ref_parent,
      mc_addAttr = ref_addAttr,
      mc_deleteAttr = ref_deleteAttr,
      mc_getAttr = ref_getAttr,
      mc_setAttr_string = ref_setAttr_string,
      mc_attributeQuery_ex = ref_attributeQuery_ex,
      mc_ls_type = ref_ls_type,
      mc_objExists = ref_objExists,
      mc_nodeType = ref_nodeType,
      set_iter = remdups\<rparr>"

text \<open>A scene: a joint under a root and a control under the joint; three RBF
  nodes with a setup name (the first an empty one) and one without; the root is
  locked.\<close>

definition scene0 :: scene where
  "scene0 =
     \<lparr>node_types = [(''root'', ''transform''), (''arm_jnt'', ''joint''),
                     (''arm_ctl'', ''transform''), (''armA_WD'', ''weightDriver''),
                     (''armB_WD'', ''weightDriver''), (''armC_WD'', ''weightDriver''),
                     (''armD_WD'', ''weightDriver'')],
      node_parents = [(''arm_jnt'', ''root''), (''arm_ctl'', ''arm_jnt''),
                       (''armA_WD'', ''root'')],
      plugs = [(''arm_ctl.RBF_Multiplier'', PInt 1),
               (''armA_WD.rbf_setup_name'', PStr []),
               (''armB_WD.rbf_setup_name'', PStr ''empty''),
               (''armC_WD.rbf_setup_name'', PStr ''arm''),
               (''armA_WD.driverControlName'', PStr ''arm_ctl''),
               (''armB_WD.driverControlName'', PStr [])],
      locked = [''root'']\<rparr>"

text \<open>A scene with no RBF node.\<close>

definition scene_plain :: scene where
  "scene_plain =
     \<lparr>node_types = [(''root'', ''transform''), (''arm_jnt'', ''joint'')],
      node_parents = [(''arm_jnt'', ''root'')],
      plugs = [],
      locked = []\<rparr>"

text \<open>The same host with an \<^verbatim>\<open>ls\<close> that answers \<^verbatim>\<open>None\<close>, not the empty list, when
  no node has one of the types.\<close>

definition ref_ls_type_or_None :: "string list \<Rightarrow> (string list option, scene) query" where
  "ref_ls_type_or_None ts s =
     (case filter (ref_has_type s ts) (map fst (node_types s)) of
        [] \<Rightarrow> Inr None
      | x # xs \<Rightarrow> Inr (Some (x # xs)))"

definition ref_host_None :: "scene maya" where
  "ref_host_None = ref_host\<lparr>mc_ls_type := ref_ls_type_or_None\<rparr>"

text \<open>A subclass to run the inherited methods with: \<^verbatim>\<open>create\<close> makes a node of the
  supported type named \<^verbatim>\<open>self.name\<close>, \<^verbatim>\<open>getTransformParent\<close> returns the parent of
  the node or \<^verbatim>\<open>None\<close>, \<^verbatim>\<open>getDriverNode\<close> returns one driver.\<close>

definition demo_create :: "(unit, scene) meth" where
  "demo_create w =
     (Inr (), (fst w, (snd w)\<lparr>node_types :=
                 node_types (snd w) @ [(name (fst w), ''weightDriver'')]\<rparr>))"

definition demo_getTransformParent :: "(pyval, scene) meth" where
  "demo_getTransformParent w =
     (case map_of (node_parents (snd w)) (name (fst w)) of
        None \<Rightarrow> (Inr PNone, w)
      | Some p \<Rightarrow> (Inr (PStr p), w))"

definition demo_methods :: "scene rbf_methods" where
  "demo_methods =
     \<lparr>create = demo_create,
      getTransformParent = demo_getTransformParent,
      lengthenCompoundAttrs = return_cmd (),
      getDriverNode = return_cmd (PList [PStr ''arm_jnt''])\<rparr>"

section \<open>Properties of a host and notions the statements use\<close>

text \<open>A host in which a string written to a plug is there afterwards: the attribute
  exists and reading the plug gives the string.\<close>

definition reads_back :: "'s maya \<Rightarrow> bool" where
  "reads_back mc =
     (\<forall>node attr v s s'.
        mc_setAttr_string mc (node @ ''.'' @ attr) v s = (Inr (), s') \<longrightarrow>
          mc_attributeQuery_ex mc attr node s' = Inr True
          \<and> mc_getAttr mc (node @ ''.'' @ attr) s' = Inr (PStr v))"

text \<open>The key of \<^verbatim>\<open>getRbfSceneSetupsInfo\<close> for a setup name: the name itself, and
  \<^verbatim>\<open>"empty"\<close> for the empty string; and the key of a node, from the setup name the
  host reads on it.\<close>

definition setup_key :: "pyval \<Rightarrow> pyval" where
  "setup_key v = (if v = PStr [] then PStr ''empty'' else v)"

definition node_key :: "'s maya \<Rightarrow> 's \<Rightarrow> string \<Rightarrow> pyval" where
  "node_key mc s n =
     (case mc_getAttr mc (n @ ''.'' @ RBF_SETUP_ATTR) s of
        Inl e \<Rightarrow> PNone
      | Inr v \<Rightarrow> setup_key v)"

section \<open>The abstract methods of the base class\<close>

text \<open>
  C1. Called on the base class itself, the methods \<^verbatim>\<open>create\<close>, \<^verbatim>\<open>getPoseInfo\<close>,
  \<^verbatim>\<open>getNodeInfo\<close>, \<^verbatim>\<open>addPose\<close>, \<^verbatim>\<open>deletePose\<close>, \<^verbatim>\<open>getDriverNode\<close>,
  \<^verbatim>\<open>getDriverNodeAttributes\<close>, \<^verbatim>\<open>getDrivenNode\<close>, \<^verbatim>\<open>getDrivenNodeAttributes\<close>,
  \<^verbatim>\<open>setDriverNode\<close> and \<^verbatim>\<open>setDrivenNode\<close> raise NotImplementedError and leave the
  instance and the scene as they were; \<^verbatim>\<open>getTransformParent\<close>, \<^verbatim>\<open>copyPoses\<close>,
  \<^verbatim>\<open>recallDriverPose\<close>, \<^verbatim>\<open>forceEvaluation\<close> and \<^verbatim>\<open>getRBFToggleAttr\<close> do not raise:
  each returns \<^verbatim>\<open>None\<close>.
\<close>

theorem base_methods_raise_or_return_None:
  "RBFNode_create w = (Inl (Exc NotImplementedError []), w)
   \<and> RBFNode_getPoseInfo w = (Inl (Exc NotImplementedError []), w)
   \<and> RBFNode_getNodeInfo w = (Inl (Exc NotImplementedError []), w)
   \<and> RBFNode_addPose poseInput poseValue posesIndex w = (Inl (Exc NotImplementedError []), w)
   \<and> RBFNode_deletePose indexToPop w = (Inl (Exc NotImplementedError []), w)
   \<and> RBFNode_getDriverNode w = (Inl (Exc NotImplementedError []), w)
   \<and> RBFNode_getDriverNodeAttributes w = (Inl (Exc NotImplementedError []), w)
   \<and> RBFNode_getDrivenNode w = (Inl (Exc NotImplementedError []), w)
   \<and> RBFNode_getDrivenNodeAttributes w = (Inl (Exc NotImplementedError []), w)
   \<and> RBFNode_setDriverNode driverNode driverAttrs w = (Inl (Exc NotImplementedError []), w)
   \<and> RBFNode_setDrivenNode drivenNode drivenAttrs parent w
       = (Inl (Exc NotImplementedError []), w)
   \<and> RBFNode_getTransformParent w = (Inr PNone, w)
   \<and> RBFNode_copyPoses nodeB emptyPoseValues w = (Inr PNone, w)
   \<and> RBFNode_recallDriverPose poseIndex w = (Inr PNone, w)
   \<and> RBFNode_forceEvaluation w = (Inr PNone, w)
   \<and> RBFNode_getRBFToggleAttr w = (Inr PNone, w)"
  by (simp add: RBFNode_create_def RBFNode_getPoseInfo_def RBFNode_getNodeInfo_def
      RBFNode_addPose_def RBFNode_deletePose_def RBFNode_getDriverNode_def
      RBFNode_getDriverNodeAttributes_def RBFNode_getDrivenNode_def
      RBFNode_getDrivenNodeAttributes_def RBFNode_setDriverNode_def
      RBFNode_setDrivenNode_def RBFNode_getTransformParent_def RBFNode_copyPoses_def
      RBFNode_recallDriverPose_def RBFNode_forceEvaluation_def
      RBFNode_getRBFToggleAttr_def raise_cmd_def return_cmd_def)

section \<open>The driven group\<close>

lemma format_two_fields_one_argument:
  "py_format ''{}{}'' [a] = Inl (Exc IndexError ''tuple index out of range'')"
  by simp

text \<open>
  C3. For a node for which \<^verbatim>\<open>listRelatives(node, p=True)\<close> returns a parent and
  whose name does not end with \<^verbatim>\<open>_ctl\<close>, \<^verbatim>\<open>addDrivenGroup\<close> raises the IndexError of
  the format string with two fields and one argument, and the scene is the one it
  was called on: no group is created and nothing is reparented.
\<close>

theorem addDrivenGroup_raises_without_ctl_suffix:
  assumes "mc_listRelatives_p mc node s = Inr (Some (p # ps))"
    and "\<not> endswith node CTL_SUFFIX"
  shows "addDrivenGroup mc node s = (Inl (Exc IndexError ''tuple index out of range''), s)"
  using assms
  by (simp add: addDrivenGroup_def bind_cmd_def query_cmd_def pure_cmd_def DRIVEN_SUFFIX_def)

theorem addDrivenGroup_raises_witness:
  "mc_listRelatives_p ref_host ''arm_jnt'' scene0 = Inr (Some [''root''])
   \<and> \<not> endswith ''arm_jnt'' CTL_SUFFIX
   \<and> addDrivenGroup ref_host ''arm_jnt'' scene0
       = (Inl (Exc IndexError ''tuple index out of range''), scene0)"
proof -
  have h1: "mc_listRelatives_p ref_host ''arm_jnt'' scene0 = Inr (Some [''root''])"
    by (simp add: ref_host_def ref_listRelatives_p_def scene0_def)
  have h2: "\<not> endswith ''arm_jnt'' CTL_SUFFIX"
    by (simp add: endswith_def CTL_SUFFIX_def)
  from addDrivenGroup_raises_without_ctl_suffix [OF h1 h2] h1 h2 show ?thesis
    by simp
qed

section \<open>The attribute helpers\<close>

lemma plug_name_eq: "plug_name node attr = Inr (node @ ''.'' @ attr)"
  by (simp add: plug_name_def)

lemma ref_host_reads_back: "reads_back ref_host"
  by (auto simp add: reads_back_def ref_host_def ref_setAttr_string_def
      ref_attributeQuery_ex_def ref_getAttr_def update_conv' split: if_splits)

text \<open>
  C2, as amended. Each helper makes one host call and suppresses its exception by class,
  whatever made the host raise it: \<^verbatim>\<open>createRBFToggleAttr\<close> and
  \<^verbatim>\<open>createDriverControlAttr\<close> suppress a RuntimeError (and its subclass
  NotImplementedError) of \<^verbatim>\<open>addAttr\<close>, \<^verbatim>\<open>deleteRBFToggleAttr\<close> suppresses a ValueError
  of \<^verbatim>\<open>deleteAttr\<close>. The helper then returns with no error, and the scene is the one
  the host call left. An exception of any other class reaches the caller unchanged,
  and a call that succeeds is passed through.
\<close>

theorem attribute_helpers_suppress_by_class:
  assumes "mc_addAttr mc node RBF_SCALE_ATTR (FloatAttr 1 0 1 True) s = (r1, s1)"
    and "mc_addAttr mc node DRIVER_CTL_ATTR_NAME StringAttr s = (r2, s2)"
    and "mc_deleteAttr mc (node @ ''.'' @ RBF_SCALE_ATTR) s = (r3, s3)"
  shows "createRBFToggleAttr mc node s =
           (case r1 of
              Inl e \<Rightarrow> if exc_class e = RuntimeError \<or> exc_class e = NotImplementedError
                       then Inr () else Inl e
            | Inr u \<Rightarrow> Inr u, s1)
         \<and> createDriverControlAttr mc node s =
           (case r2 of
              Inl e \<Rightarrow> if exc_class e = RuntimeError \<or> exc_class e = NotImplementedError
                       then Inr () else Inl e
            | Inr u \<Rightarrow> Inr u, s2)
         \<and> deleteRBFToggleAttr mc node s =
           (case r3 of
              Inl e \<Rightarrow> if exc_class e = ValueError then Inr () else Inl e
            | Inr u \<Rightarrow> Inr u, s3)"
  using assms
  by (auto simp add: createRBFToggleAttr_def createDriverControlAttr_def
      deleteRBFToggleAttr_def try_except_def bind_cmd_def pure_cmd_def return_cmd_def
      plug_name_eq isinstance_def split: sum.splits)

text \<open>On the control of the example scene the toggle attribute exists: the first
  helper suppresses the host's RuntimeError, the second adds the string attribute,
  the third deletes the toggle attribute.\<close>

theorem attribute_helpers_witness:
  "mc_addAttr ref_host ''arm_ctl'' RBF_SCALE_ATTR (FloatAttr 1 0 1 True) scene0
     = (Inl (Exc RuntimeError ''Found no valid items to add the attribute to.''), scene0)
   \<and> mc_addAttr ref_host ''arm_ctl'' DRIVER_CTL_ATTR_NAME StringAttr scene0
     = (Inr (), scene0\<lparr>plugs := plugs scene0 @ [(''arm_ctl.driverControlName'', PNone)]\<rparr>)
   \<and> mc_deleteAttr ref_host (''arm_ctl'' @ ''.'' @ RBF_SCALE_ATTR) scene0
     = (Inr (), scene0\<lparr>plugs := tl (plugs scene0)\<rparr>)
   \<and> createRBFToggleAttr ref_host ''arm_ctl'' scene0 = (Inr (), scene0)
   \<and> createDriverControlAttr ref_host ''arm_ctl'' scene0
     = (Inr (), scene0\<lparr>plugs := plugs scene0 @ [(''arm_ctl.driverControlName'', PNone)]\<rparr>)
   \<and> deleteRBFToggleAttr ref_host ''arm_ctl'' scene0
     = (Inr (), scene0\<lparr>plugs := tl (plugs scene0)\<rparr>)"
proof -
  have h1: "mc_addAttr ref_host ''arm_ctl'' RBF_SCALE_ATTR (FloatAttr 1 0 1 True) scene0
     = (Inl (Exc RuntimeError ''Found no valid items to add the attribute to.''), scene0)"
    by (simp add: ref_host_def ref_addAttr_def scene0_def RBF_SCALE_ATTR_def)
  have h2: "mc_addAttr ref_host ''arm_ctl'' DRIVER_CTL_ATTR_NAME StringAttr scene0
     = (Inr (), scene0\<lparr>plugs := plugs scene0 @ [(''arm_ctl.driverControlName'', PNone)]\<rparr>)"
    by (simp add: ref_host_def ref_addAttr_def scene0_def DRIVER_CTL_ATTR_NAME_def)
  have h3: "mc_deleteAttr ref_host (''arm_ctl'' @ ''.'' @ RBF_SCALE_ATTR) scene0
     = (Inr (), scene0\<lparr>plugs := tl (plugs scene0)\<rparr>)"
    by (simp add: ref_host_def ref_deleteAttr_def scene0_def RBF_SCALE_ATTR_def
        AList.delete_eq)
  from attribute_helpers_suppress_by_class [OF h1 h2 h3] h1 h2 h3 show ?thesis
    by simp
qed

text \<open>
  C2 as it is written fails where the host raises a RuntimeError for another reason
  than an attribute that exists. The root of the example scene is locked and has no
  toggle attribute: \<^verbatim>\<open>addAttr\<close> raises a RuntimeError for the lock, which
  \<^verbatim>\<open>createRBFToggleAttr\<close> suppresses instead of passing it on.
\<close>

theorem attribute_helpers_counterexample:
  "map_of (plugs scene0) ''root.RBF_Multiplier'' = None
   \<and> mc_addAttr ref_host ''root'' RBF_SCALE_ATTR (FloatAttr 1 0 1 True) scene0
       = (Inl (Exc RuntimeError ''The node is locked.''), scene0)
   \<and> createRBFToggleAttr ref_host ''root'' scene0 = (Inr (), scene0)"
  by (simp add: createRBFToggleAttr_def try_except_def return_cmd_def isinstance_def
      ref_host_def ref_addAttr_def scene0_def RBF_SCALE_ATTR_def)

section \<open>The driver control name\<close>

lemma setDriverControlAttr_ends_with_setAttr:
  assumes "setDriverControlAttr mc node controlName s = (Inr (), s')"
  shows "\<exists>s1. mc_setAttr_string mc (node @ ''.'' @ DRIVER_CTL_ATTR_NAME) controlName s1
              = (Inr (), s')
            \<and> (mc_attributeQuery_ex mc DRIVER_CTL_ATTR_NAME node s = Inr True \<and> s1 = s
               \<or> mc_attributeQuery_ex mc DRIVER_CTL_ATTR_NAME node s = Inr False
                 \<and> createDriverControlAttr mc node s = (Inr (), s1))"
  using assms
  by (auto simp add: setDriverControlAttr_def bind_cmd_def query_cmd_def pure_cmd_def
      return_cmd_def plug_name_eq split: sum.splits prod.splits if_splits)

text \<open>
  C4. On a host that reads back the string written to a plug: when
  \<^verbatim>\<open>setDriverControlAttr(node, controlName)\<close> has returned, \<^verbatim>\<open>getDriverControlAttr(node)\<close>
  returns \<open>controlName\<close>. The scene it returns in is the one left by \<^verbatim>\<open>setAttr\<close> on the
  plug \<^verbatim>\<open>node.driverControlName\<close>, run after \<^verbatim>\<open>createDriverControlAttr\<close> when the host
  reported that the attribute did not exist, and on the scene as it was otherwise.
\<close>

theorem setDriverControlAttr_then_get:
  assumes "reads_back mc"
    and "setDriverControlAttr mc node controlName s = (Inr (), s')"
  shows "getDriverControlAttr mc node s' = Inr (PStr controlName)
         \<and> (\<exists>s1. mc_setAttr_string mc (node @ ''.'' @ DRIVER_CTL_ATTR_NAME) controlName s1
                   = (Inr (), s')
                 \<and> (if mc_attributeQuery_ex mc DRIVER_CTL_ATTR_NAME node s = Inr False
                    then createDriverControlAttr mc node s = (Inr (), s1)
                    else s1 = s))"
proof -
  from setDriverControlAttr_ends_with_setAttr [OF assms(2)] obtain s1 where
    w: "mc_setAttr_string mc (node @ ''.'' @ DRIVER_CTL_ATTR_NAME) controlName s1
          = (Inr (), s')"
    and c: "mc_attributeQuery_ex mc DRIVER_CTL_ATTR_NAME node s = Inr True \<and> s1 = s
               \<or> mc_attributeQuery_ex mc DRIVER_CTL_ATTR_NAME node s = Inr False
                 \<and> createDriverControlAttr mc node s = (Inr (), s1)"
    by blast
  from assms(1) w
  have "mc_getAttr mc (node @ ''.'' @ DRIVER_CTL_ATTR_NAME) s' = Inr (PStr controlName)"
    unfolding reads_back_def by blast
  then have g: "getDriverControlAttr mc node s' = Inr (PStr controlName)"
    by (simp add: getDriverControlAttr_def plug_name_eq)
  from c have "if mc_attributeQuery_ex mc DRIVER_CTL_ATTR_NAME node s = Inr False
                    then createDriverControlAttr mc node s = (Inr (), s1)
                    else s1 = s"
    by auto
  with g w show ?thesis by blast
qed

text \<open>The third RBF node of the example scene has no driver control attribute yet.\<close>

theorem setDriverControlAttr_then_get_witness:
  "reads_back ref_host
   \<and> setDriverControlAttr ref_host ''armC_WD'' ''arm_ctl'' scene0
       = (Inr (), scene0\<lparr>plugs := plugs scene0
                               @ [(''armC_WD.driverControlName'', PStr ''arm_ctl'')]\<rparr>)
   \<and> getDriverControlAttr ref_host ''armC_WD''
        (scene0\<lparr>plugs := plugs scene0 @ [(''armC_WD.driverControlName'', PStr ''arm_ctl'')]\<rparr>)
       = Inr (PStr ''arm_ctl'')"
proof -
  have h: "setDriverControlAttr ref_host ''armC_WD'' ''arm_ctl'' scene0
       = (Inr (), scene0\<lparr>plugs := plugs scene0
                               @ [(''armC_WD.driverControlName'', PStr ''arm_ctl'')]\<rparr>)"
    by (simp add: setDriverControlAttr_def bind_cmd_def query_cmd_def pure_cmd_def
        return_cmd_def plug_name_eq createDriverControlAttr_def try_except_def
        ref_host_def ref_attributeQuery_ex_def ref_addAttr_def ref_setAttr_string_def
        scene0_def DRIVER_CTL_ATTR_NAME_def)
  from setDriverControlAttr_then_get [OF ref_host_reads_back h] ref_host_reads_back h
  show ?thesis by simp
qed

text \<open>
  C5. \<^verbatim>\<open>RBFNode.getDriverControlAttr\<close>: when the module's \<^verbatim>\<open>getDriverControlAttr\<close> gives
  a value other than the empty string for \<^verbatim>\<open>self.name\<close>, the method returns that value;
  when it gives the empty string, the method calls \<^verbatim>\<open>self.getDriverNode()\<close> and
  returns the first element of its list, and an exception of \<^verbatim>\<open>getDriverNode\<close>
  reaches the caller.
\<close>

theorem RBFNode_getDriverControlAttr_fallback:
  assumes "getDriverControlAttr mc (name self) s = Inr v"
  shows "(v \<noteq> PStr [] \<longrightarrow>
            RBFNode_getDriverControlAttr mc cls (self, s) = (Inr v, (self, s)))
         \<and> (v = PStr [] \<longrightarrow> getDriverNode cls (self, s) = (Inr (PList (x # xs)), w') \<longrightarrow>
            RBFNode_getDriverControlAttr mc cls (self, s) = (Inr x, w'))
         \<and> (v = PStr [] \<longrightarrow> getDriverNode cls (self, s) = (Inl e, w') \<longrightarrow>
            RBFNode_getDriverControlAttr mc cls (self, s) = (Inl e, w'))"
  using assms
  by (simp add: RBFNode_getDriverControlAttr_def bind_cmd_def on_scene_def query_cmd_def
      pure_cmd_def return_cmd_def)

text \<open>The second RBF node of the example scene stores an empty driver control, the
  first one the control \<^verbatim>\<open>arm_ctl\<close>; on the base class \<^verbatim>\<open>getDriverNode\<close> raises.\<close>

theorem RBFNode_getDriverControlAttr_witness:
  "getDriverControlAttr ref_host ''armB_WD'' scene0 = Inr (PStr [])
   \<and> getDriverNode demo_methods
        (\<lparr>name = ''armB_WD'', transformNode = PNone, rbfType = Some ''weightDriver''\<rparr>, scene0)
       = (Inr (PList [PStr ''arm_jnt'']),
          (\<lparr>name = ''armB_WD'', transformNode = PNone, rbfType = Some ''weightDriver''\<rparr>, scene0))
   \<and> RBFNode_getDriverControlAttr ref_host demo_methods
        (\<lparr>name = ''armB_WD'', transformNode = PNone, rbfType = Some ''weightDriver''\<rparr>, scene0)
       = (Inr (PStr ''arm_jnt''),
          (\<lparr>name = ''armB_WD'', transformNode = PNone, rbfType = Some ''weightDriver''\<rparr>, scene0))
   \<and> getDriverControlAttr ref_host ''armA_WD'' scene0 = Inr (PStr ''arm_ctl'')
   \<and> RBFNode_getDriverControlAttr ref_host demo_methods
        (\<lparr>name = ''armA_WD'', transformNode = PNone, rbfType = Some ''weightDriver''\<rparr>, scene0)
       = (Inr (PStr ''arm_ctl''),
          (\<lparr>name = ''armA_WD'', transformNode = PNone, rbfType = Some ''weightDriver''\<rparr>, scene0))
   \<and> getDriverNode RBFNode_methods
        (\<lparr>name = ''armB_WD'', transformNode = PNone, rbfType = Some ''weightDriver''\<rparr>, scene0)
       = (Inl (Exc NotImplementedError []),
          (\<lparr>name = ''armB_WD'', transformNode = PNone, rbfType = Some ''weightDriver''\<rparr>, scene0))
   \<and> RBFNode_getDriverControlAttr ref_host RBFNode_methods
        (\<lparr>name = ''armB_WD'', transformNode = PNone, rbfType = Some ''weightDriver''\<rparr>, scene0)
       = (Inl (Exc NotImplementedError []),
          (\<lparr>name = ''armB_WD'', transformNode = PNone, rbfType = Some ''weightDriver''\<rparr>, scene0))"
proof -
  let ?B = "\<lparr>name = ''armB_WD'', transformNode = PNone, rbfType = Some ''weightDriver''\<rparr>"
  let ?A = "\<lparr>name = ''armA_WD'', transformNode = PNone, rbfType = Some ''weightDriver''\<rparr>"
  have b: "getDriverControlAttr ref_host (name ?B) scene0 = Inr (PStr [])"
    by (simp add: getDriverControlAttr_def plug_name_eq ref_host_def ref_getAttr_def
        scene0_def DRIVER_CTL_ATTR_NAME_def)
  have a: "getDriverControlAttr ref_host (name ?A) scene0 = Inr (PStr ''arm_ctl'')"
    by (simp add: getDriverControlAttr_def plug_name_eq ref_host_def ref_getAttr_def
        scene0_def DRIVER_CTL_ATTR_NAME_def)
  have d: "getDriverNode demo_methods (?B, scene0)
             = (Inr (PList [PStr ''arm_jnt'']), (?B, scene0))"
    by (simp add: demo_methods_def return_cmd_def)
  have r: "getDriverNode RBFNode_methods (?B, scene0)
             = (Inl (Exc NotImplementedError []), (?B, scene0))"
    by (simp add: RBFNode_methods_def RBFNode_getDriverNode_def raise_cmd_def)
  from RBFNode_getDriverControlAttr_fallback
         [OF b, of demo_methods "PStr ''arm_jnt''" "[]" "(?B, scene0)"] d
  have 1: "RBFNode_getDriverControlAttr ref_host demo_methods (?B, scene0)
             = (Inr (PStr ''arm_jnt''), (?B, scene0))"
    by simp
  from RBFNode_getDriverControlAttr_fallback [OF a, of demo_methods]
  have 2: "RBFNode_getDriverControlAttr ref_host demo_methods (?A, scene0)
             = (Inr (PStr ''arm_ctl''), (?A, scene0))"
    by simp
  from RBFNode_getDriverControlAttr_fallback
         [OF b, of RBFNode_methods _ _ "(?B, scene0)" "Exc NotImplementedError []"] r
  have 3: "RBFNode_getDriverControlAttr ref_host RBFNode_methods (?B, scene0)
             = (Inl (Exc NotImplementedError []), (?B, scene0))"
    by simp
  from a b d r 1 2 3 show ?thesis by simp
qed

section \<open>The setup name\<close>

lemma setSetupName_ends_with_setAttr:
  assumes "setSetupName mc node setupName s = (Inr (), s')"
  shows "\<exists>s1. mc_setAttr_string mc (node @ ''.'' @ RBF_SETUP_ATTR) setupName s1 = (Inr (), s')
            \<and> (mc_attributeQuery_ex mc RBF_SETUP_ATTR node s = Inr True \<and> s1 = s
               \<or> mc_attributeQuery_ex mc RBF_SETUP_ATTR node s = Inr False
                 \<and> mc_addAttr mc node RBF_SETUP_ATTR StringAttr s = (Inr (), s1))"
  using assms
  by (auto simp add: setSetupName_def bind_cmd_def query_cmd_def pure_cmd_def
      return_cmd_def plug_name_eq split: sum.splits prod.splits if_splits)

text \<open>
  C6. On a host that reads back the string written to a plug: when
  \<^verbatim>\<open>setSetupName(node, setupName)\<close> has returned, \<^verbatim>\<open>getSetupName(node)\<close> returns
  \<open>setupName\<close>; the scene it returns in is the one left by \<^verbatim>\<open>setAttr\<close> on the plug
  \<^verbatim>\<open>node.rbf_setup_name\<close>, run after \<^verbatim>\<open>addAttr\<close> of the string attribute when the host
  reported that the attribute did not exist. On a node for which the host reports
  that the attribute does not exist, \<^verbatim>\<open>getSetupName\<close> returns \<^verbatim>\<open>None\<close>.
\<close>

theorem setSetupName_then_getSetupName:
  assumes "reads_back mc"
  shows "(setSetupName mc node setupName s = (Inr (), s') \<longrightarrow>
            getSetupName mc node s' = Inr (PStr setupName)
            \<and> (\<exists>s1. mc_setAttr_string mc (node @ ''.'' @ RBF_SETUP_ATTR) setupName s1
                      = (Inr (), s')
                    \<and> (if mc_attributeQuery_ex mc RBF_SETUP_ATTR node s = Inr False
                       then mc_addAttr mc node RBF_SETUP_ATTR StringAttr s = (Inr (), s1)
                       else s1 = s)))
         \<and> (mc_attributeQuery_ex mc RBF_SETUP_ATTR other t = Inr False \<longrightarrow>
            getSetupName mc other t = Inr PNone)"
proof (intro conjI impI)
  assume a: "setSetupName mc node setupName s = (Inr (), s')"
  from setSetupName_ends_with_setAttr [OF a] obtain s1 where
    w: "mc_setAttr_string mc (node @ ''.'' @ RBF_SETUP_ATTR) setupName s1 = (Inr (), s')"
    and c: "mc_attributeQuery_ex mc RBF_SETUP_ATTR node s = Inr True \<and> s1 = s
               \<or> mc_attributeQuery_ex mc RBF_SETUP_ATTR node s = Inr False
                 \<and> mc_addAttr mc node RBF_SETUP_ATTR StringAttr s = (Inr (), s1)"
    by blast
  from assms w have "mc_attributeQuery_ex mc RBF_SETUP_ATTR node s' = Inr True
      \<and> mc_getAttr mc (node @ ''.'' @ RBF_SETUP_ATTR) s' = Inr (PStr setupName)"
    unfolding reads_back_def by blast
  then show "getSetupName mc node s' = Inr (PStr setupName)"
    by (simp add: getSetupName_def plug_name_eq)
  from c have "if mc_attributeQuery_ex mc RBF_SETUP_ATTR node s = Inr False
                    then mc_addAttr mc node RBF_SETUP_ATTR StringAttr s = (Inr (), s1)
                    else s1 = s"
    by auto
  with w show "\<exists>s1. mc_setAttr_string mc (node @ ''.'' @ RBF_SETUP_ATTR) setupName s1
                      = (Inr (), s')
                    \<and> (if mc_attributeQuery_ex mc RBF_SETUP_ATTR node s = Inr False
                       then mc_addAttr mc node RBF_SETUP_ATTR StringAttr s = (Inr (), s1)
                       else s1 = s)"
    by blast
next
  assume "mc_attributeQuery_ex mc RBF_SETUP_ATTR other t = Inr False"
  then show "getSetupName mc other t = Inr PNone"
    by (simp add: getSetupName_def)
qed

text \<open>The fourth RBF node of the example scene carries no setup name.\<close>

theorem setSetupName_then_getSetupName_witness:
  "reads_back ref_host
   \<and> mc_attributeQuery_ex ref_host RBF_SETUP_ATTR ''armD_WD'' scene0 = Inr False
   \<and> getSetupName ref_host ''armD_WD'' scene0 = Inr PNone
   \<and> setSetupName ref_host ''armD_WD'' ''leg'' scene0
       = (Inr (), scene0\<lparr>plugs := plugs scene0 @ [(''armD_WD.rbf_setup_name'', PStr ''leg'')]\<rparr>)
   \<and> getSetupName ref_host ''armD_WD''
        (scene0\<lparr>plugs := plugs scene0 @ [(''armD_WD.rbf_setup_name'', PStr ''leg'')]\<rparr>)
       = Inr (PStr ''leg'')"
proof -
  have q: "mc_attributeQuery_ex ref_host RBF_SETUP_ATTR ''armD_WD'' scene0 = Inr False"
    by (simp add: ref_host_def ref_attributeQuery_ex_def scene0_def RBF_SETUP_ATTR_def)
  have h: "setSetupName ref_host ''armD_WD'' ''leg'' scene0
       = (Inr (), scene0\<lparr>plugs := plugs scene0 @ [(''armD_WD.rbf_setup_name'', PStr ''leg'')]\<rparr>)"
    by (simp add: setSetupName_def bind_cmd_def query_cmd_def pure_cmd_def
        return_cmd_def plug_name_eq ref_host_def ref_attributeQuery_ex_def ref_addAttr_def
        ref_setAttr_string_def scene0_def RBF_SETUP_ATTR_def)
  from setSetupName_then_getSetupName
         [OF ref_host_reads_back, of "''armD_WD''" "''leg''" scene0 _ "''armD_WD''" scene0]
       ref_host_reads_back q h
  show ?thesis by simp
qed

section \<open>Construction of an instance\<close>

lemma exists_supported_False_iff:
  "exists_supported mc nm s = Inr False \<longleftrightarrow>
     (mc_objExists mc nm s = Inr False
      \<or> (mc_objExists mc nm s = Inr True
          \<and> (\<exists>t. mc_nodeType mc nm s = Inr t \<and> t \<notin> set SUPPORTED_RBF_NODES)))"
  by (auto simp add: exists_supported_def split: sum.splits if_splits)

text \<open>
  C7. \<^verbatim>\<open>RBFNode.__init__(name)\<close>, over the methods of whichever class the instance
  has. When the host says that \<open>name\<close> exists and gives it a type in
  \<^verbatim>\<open>SUPPORTED_RBF_NODES\<close>, \<^verbatim>\<open>rbfType\<close> is set to that type, then \<^verbatim>\<open>transformNode\<close> to what
  \<^verbatim>\<open>getTransformParent\<close> returns, then \<^verbatim>\<open>lengthenCompoundAttrs\<close> runs, and the result is
  the same whatever \<^verbatim>\<open>create\<close> is: it is not called. Otherwise \<^verbatim>\<open>create\<close> is called on
  the fresh instance, then \<^verbatim>\<open>createDriverControlAttr\<close> on \<^verbatim>\<open>self.name\<close> as \<^verbatim>\<open>create\<close> left
  it; an exception of either ends the construction.
\<close>

theorem RBFNode_init_wraps_or_creates:
  "(mc_objExists mc nm s = Inr True \<longrightarrow> mc_nodeType mc nm s = Inr t \<longrightarrow>
      t \<in> set SUPPORTED_RBF_NODES \<longrightarrow>
      getTransformParent cls (\<lparr>name = nm, transformNode = PNone, rbfType = Some t\<rparr>, s)
        = (Inr p, (self1, s1)) \<longrightarrow>
      lengthenCompoundAttrs cls (self1\<lparr>transformNode := p\<rparr>, s1) = (Inr (), (self2, s2)) \<longrightarrow>
      RBFNode_init mc (cls\<lparr>create := c\<rparr>) nm s = (Inr self2, s2))
   \<and> (exists_supported mc nm s = Inr False \<longrightarrow>
      RBFNode_init mc cls nm s =
        (case create cls (\<lparr>name = nm, transformNode = PNone, rbfType = None\<rparr>, s) of
           (Inl e, w) \<Rightarrow> (Inl e, snd w)
         | (Inr u, w) \<Rightarrow>
             (case createDriverControlAttr mc (name (fst w)) (snd w) of
                (Inl e, s3) \<Rightarrow> (Inl e, s3)
              | (Inr u, s3) \<Rightarrow> (Inr (fst w), s3))))"
  by (auto simp add: RBFNode_init_def init_body_def bind_cmd_def on_scene_def query_cmd_def
      assign_def exists_supported_def split: sum.splits prod.splits)

text \<open>On the example scene the subclass wraps the first RBF node, with its parent as
  transform node, and creates a node for a name that is not in the scene; the base
  class raises there, since its \<^verbatim>\<open>create\<close> does.\<close>

theorem RBFNode_init_witness:
  "mc_objExists ref_host ''armA_WD'' scene0 = Inr True
   \<and> mc_nodeType ref_host ''armA_WD'' scene0 = Inr ''weightDriver''
   \<and> ''weightDriver'' \<in> set SUPPORTED_RBF_NODES
   \<and> RBFNode_init ref_host (demo_methods\<lparr>create := RBFNode_create\<rparr>) ''armA_WD'' scene0
       = (Inr \<lparr>name = ''armA_WD'', transformNode = PStr ''root'',
                rbfType = Some ''weightDriver''\<rparr>, scene0)
   \<and> exists_supported ref_host ''leg_WD'' scene0 = Inr False
   \<and> RBFNode_init ref_host demo_methods ''leg_WD'' scene0
       = (Inr \<lparr>name = ''leg_WD'', transformNode = PNone, rbfType = None\<rparr>,
          scene0\<lparr>node_types := node_types scene0 @ [(''leg_WD'', ''weightDriver'')],
                  plugs := plugs scene0 @ [(''leg_WD.driverControlName'', PNone)]\<rparr>)
   \<and> RBFNode_init ref_host RBFNode_methods ''leg_WD'' scene0
       = (Inl (Exc NotImplementedError []), scene0)"
proof -
  let ?A = "\<lparr>name = ''armA_WD'', transformNode = PNone, rbfType = Some ''weightDriver''\<rparr>"
  have e: "mc_objExists ref_host ''armA_WD'' scene0 = Inr True"
    by (simp add: ref_host_def ref_objExists_def scene0_def)
  have t: "mc_nodeType ref_host ''armA_WD'' scene0 = Inr ''weightDriver''"
    by (simp add: ref_host_def ref_nodeType_def scene0_def)
  have m: "''weightDriver'' \<in> set SUPPORTED_RBF_NODES"
    by (simp add: SUPPORTED_RBF_NODES_def)
  have g: "getTransformParent demo_methods (?A, scene0) = (Inr (PStr ''root''), (?A, scene0))"
    by (simp add: demo_methods_def demo_getTransformParent_def scene0_def)
  have l: "lengthenCompoundAttrs demo_methods (?A\<lparr>transformNode := PStr ''root''\<rparr>, scene0)
             = (Inr (), (?A\<lparr>transformNode := PStr ''root''\<rparr>, scene0))"
    by (simp add: demo_methods_def return_cmd_def)
  have n: "exists_supported ref_host ''leg_WD'' scene0 = Inr False"
    by (simp add: exists_supported_def ref_host_def ref_objExists_def scene0_def)
  have c: "create demo_methods
             (\<lparr>name = ''leg_WD'', transformNode = PNone, rbfType = None\<rparr>, scene0)
           = (Inr (), (\<lparr>name = ''leg_WD'', transformNode = PNone, rbfType = None\<rparr>,
                scene0\<lparr>node_types := node_types scene0 @ [(''leg_WD'', ''weightDriver'')]\<rparr>))"
    by (simp add: demo_methods_def demo_create_def)
  have a: "createDriverControlAttr ref_host ''leg_WD''
             (scene0\<lparr>node_types := node_types scene0 @ [(''leg_WD'', ''weightDriver'')]\<rparr>)
           = (Inr (), scene0\<lparr>node_types := node_types scene0 @ [(''leg_WD'', ''weightDriver'')],
                  plugs := plugs scene0 @ [(''leg_WD.driverControlName'', PNone)]\<rparr>)"
    by (simp add: createDriverControlAttr_def try_except_def ref_host_def ref_addAttr_def
        scene0_def DRIVER_CTL_ATTR_NAME_def)
  have b: "create RBFNode_methods
             (\<lparr>name = ''leg_WD'', transformNode = PNone, rbfType = None\<rparr>, scene0)
           = (Inl (Exc NotImplementedError []),
              (\<lparr>name = ''leg_WD'', transformNode = PNone, rbfType = None\<rparr>, scene0))"
    by (simp add: RBFNode_methods_def RBFNode_create_def raise_cmd_def)
  from RBFNode_init_wraps_or_creates
         [of ref_host "''armA_WD''" scene0 "''weightDriver''" demo_methods "PStr ''root''"
             ?A scene0 "?A\<lparr>transformNode := PStr ''root''\<rparr>" scene0 RBFNode_create]
       e t m g l
  have 1: "RBFNode_init ref_host (demo_methods\<lparr>create := RBFNode_create\<rparr>) ''armA_WD'' scene0
       = (Inr \<lparr>name = ''armA_WD'', transformNode = PStr ''root'',
                rbfType = Some ''weightDriver''\<rparr>, scene0)"
    by simp
  from RBFNode_init_wraps_or_creates [of ref_host "''leg_WD''" scene0 _ demo_methods] n c a
  have 2: "RBFNode_init ref_host demo_methods ''leg_WD'' scene0
       = (Inr \<lparr>name = ''leg_WD'', transformNode = PNone, rbfType = None\<rparr>,
          scene0\<lparr>node_types := node_types scene0 @ [(''leg_WD'', ''weightDriver'')],
                  plugs := plugs scene0 @ [(''leg_WD.driverControlName'', PNone)]\<rparr>)"
    by simp
  from RBFNode_init_wraps_or_creates [of ref_host "''leg_WD''" scene0 _ RBFNode_methods] n b
  have 3: "RBFNode_init ref_host RBFNode_methods ''leg_WD'' scene0
       = (Inl (Exc NotImplementedError []), scene0)"
    by simp
  from e t m n 1 2 3 show ?thesis by simp
qed

section \<open>The RBF nodes of the scene\<close>

lemma exists_supported_True_iff:
  "exists_supported mc nm s = Inr True \<longleftrightarrow>
     (mc_objExists mc nm s = Inr True
          \<and> (\<exists>t. mc_nodeType mc nm s = Inr t \<and> t \<in> set SUPPORTED_RBF_NODES))"
  by (auto simp add: exists_supported_def split: sum.splits if_splits)

lemma ref_exists_supported:
  "exists_supported ref_host n s = Inr True \<longleftrightarrow> ref_has_type s SUPPORTED_RBF_NODES n"
  by (auto simp add: exists_supported_def ref_host_def ref_objExists_def ref_nodeType_def
      ref_has_type_def split: option.splits)

lemma ref_has_type_listed:
  "ref_has_type s ts n \<Longrightarrow> n \<in> set (map fst (node_types s))"
  by (auto simp add: ref_has_type_def split: option.splits dest: map_of_SomeD
      intro: rev_image_eqI)

lemma ref_ls_type_eq:
  "mc_ls_type ref_host ts s = Inr (Some (filter (ref_has_type s ts) (map fst (node_types s))))"
  by (simp add: ref_host_def ref_ls_type_def)

lemma ref_listed_iff:
  "n \<in> set (filter (ref_has_type s SUPPORTED_RBF_NODES) (map fst (node_types s)))
     \<longleftrightarrow> exists_supported ref_host n s = Inr True"
  using ref_has_type_listed [of s SUPPORTED_RBF_NODES n]
  by (auto simp add: ref_exists_supported)

text \<open>
  C8. \<^verbatim>\<open>SUPPORTED_RBF_NODES\<close> is the one type \<^verbatim>\<open>weightDriver\<close>. Let the host's
  \<^verbatim>\<open>ls(type=SUPPORTED_RBF_NODES)\<close> answer with the nodes that exist with a supported
  type: a list of them, or \<^verbatim>\<open>None\<close> where it has none to name. Then
  \<^verbatim>\<open>getSceneRBFNodes\<close> returns a list: the host's list where it gave one and the empty
  list where it gave \<^verbatim>\<open>None\<close>. Its elements are the nodes that exist with the type
  \<^verbatim>\<open>weightDriver\<close>, and it is the empty list when there is none.
\<close>

theorem getSceneRBFNodes_supported:
  assumes "mc_ls_type mc SUPPORTED_RBF_NODES s = Inr r"
    and "\<forall>n. n \<in> (case r of None \<Rightarrow> {} | Some xs \<Rightarrow> set xs)
               \<longleftrightarrow> exists_supported mc n s = Inr True"
  shows "SUPPORTED_RBF_NODES = [''weightDriver'']
         \<and> (\<exists>ns. getSceneRBFNodes mc s = Inr ns
                \<and> ns = (case r of None \<Rightarrow> [] | Some xs \<Rightarrow> xs)
                \<and> (\<forall>n. n \<in> set ns \<longleftrightarrow>
                       mc_objExists mc n s = Inr True
                       \<and> mc_nodeType mc n s = Inr ''weightDriver'')
                \<and> ((\<forall>n. exists_supported mc n s \<noteq> Inr True) \<longrightarrow> ns = []))"
proof -
  let ?ns = "case r of None \<Rightarrow> [] | Some xs \<Rightarrow> xs"
  have 1: "SUPPORTED_RBF_NODES = [''weightDriver'']"
    by (simp add: SUPPORTED_RBF_NODES_def)
  have 2: "getSceneRBFNodes mc s = Inr ?ns"
    using assms(1) by (cases r) (simp_all add: getSceneRBFNodes_def)
  have s: "set ?ns = (case r of None \<Rightarrow> {} | Some xs \<Rightarrow> set xs)"
    by (cases r) simp_all
  have m: "\<forall>n. n \<in> set ?ns \<longleftrightarrow> exists_supported mc n s = Inr True"
    using assms(2) s by simp
  have 3: "\<forall>n. n \<in> set ?ns \<longleftrightarrow>
              mc_objExists mc n s = Inr True \<and> mc_nodeType mc n s = Inr ''weightDriver''"
    using m by (simp add: exists_supported_True_iff 1)
  have 4: "(\<forall>n. exists_supported mc n s \<noteq> Inr True) \<longrightarrow> ?ns = []"
  proof
    assume "\<forall>n. exists_supported mc n s \<noteq> Inr True"
    with m have "\<forall>n. n \<notin> set ?ns" by simp
    then show "?ns = []" by (cases ?ns) auto
  qed
  show ?thesis
    apply (intro conjI)
     apply (rule 1)
    apply (rule exI [of _ ?ns])
    apply (intro conjI)
       apply (rule 2)
      apply (rule refl)
     apply (rule 3)
    apply (rule 4)
    done
qed

lemma scene0_listed:
  "filter (ref_has_type scene0 SUPPORTED_RBF_NODES) (map fst (node_types scene0))
     = [''armA_WD'', ''armB_WD'', ''armC_WD'', ''armD_WD'']"
  by (simp add: ref_has_type_def scene0_def SUPPORTED_RBF_NODES_def)

lemma scene_plain_listed:
  "filter (ref_has_type scene_plain SUPPORTED_RBF_NODES) (map fst (node_types scene_plain)) = []"
  by (simp add: ref_has_type_def scene_plain_def SUPPORTED_RBF_NODES_def)

lemma ref_host_None_exists_supported:
  "exists_supported ref_host_None n s = exists_supported ref_host n s"
proof -
  have "mc_objExists ref_host_None = mc_objExists ref_host"
    and "mc_nodeType ref_host_None = mc_nodeType ref_host"
    by (simp_all add: ref_host_None_def)
  then show ?thesis
    by (simp only: exists_supported_def)
qed

text \<open>The example scene has four RBF nodes and the host lists them. The plain scene
  has none: one host answers with the empty list, the other with \<^verbatim>\<open>None\<close>, and
  \<^verbatim>\<open>getSceneRBFNodes\<close> returns the empty list on both.\<close>

theorem getSceneRBFNodes_witness:
  "mc_ls_type ref_host SUPPORTED_RBF_NODES scene0
     = Inr (Some [''armA_WD'', ''armB_WD'', ''armC_WD'', ''armD_WD''])
   \<and> (\<forall>n. n \<in> set [''armA_WD'', ''armB_WD'', ''armC_WD'', ''armD_WD'']
          \<longleftrightarrow> exists_supported ref_host n scene0 = Inr True)
   \<and> getSceneRBFNodes ref_host scene0
     = Inr [''armA_WD'', ''armB_WD'', ''armC_WD'', ''armD_WD'']
   \<and> mc_ls_type ref_host SUPPORTED_RBF_NODES scene_plain = Inr (Some [])
   \<and> (\<forall>n. exists_supported ref_host n scene_plain \<noteq> Inr True)
   \<and> getSceneRBFNodes ref_host scene_plain = Inr []
   \<and> mc_ls_type ref_host_None SUPPORTED_RBF_NODES scene_plain = Inr None
   \<and> (\<forall>n. exists_supported ref_host_None n scene_plain \<noteq> Inr True)
   \<and> getSceneRBFNodes ref_host_None scene_plain = Inr []"
proof -
  let ?xs = "[''armA_WD'', ''armB_WD'', ''armC_WD'', ''armD_WD'']"
  have l0: "mc_ls_type ref_host SUPPORTED_RBF_NODES scene0 = Inr (Some ?xs)"
    by (simp add: ref_ls_type_eq scene0_listed)
  have m0: "\<forall>n. n \<in> set ?xs \<longleftrightarrow> exists_supported ref_host n scene0 = Inr True"
    using ref_listed_iff [of _ scene0] by (simp only: scene0_listed) simp
  then have i0: "\<forall>n. n \<in> (case Some ?xs of None \<Rightarrow> {} | Some xs \<Rightarrow> set xs)
                    \<longleftrightarrow> exists_supported ref_host n scene0 = Inr True"
    by simp
  have l1: "mc_ls_type ref_host SUPPORTED_RBF_NODES scene_plain = Inr (Some [])"
    by (simp add: ref_ls_type_eq scene_plain_listed)
  have n1: "\<forall>n. exists_supported ref_host n scene_plain \<noteq> Inr True"
    using ref_listed_iff [of _ scene_plain] by (simp only: scene_plain_listed) simp
  then have i1: "\<forall>n. n \<in> (case Some [] of None \<Rightarrow> {} | Some xs \<Rightarrow> set xs)
                    \<longleftrightarrow> exists_supported ref_host n scene_plain = Inr True"
    by simp
  have l2: "mc_ls_type ref_host_None SUPPORTED_RBF_NODES scene_plain = Inr None"
    by (simp add: ref_host_None_def ref_ls_type_or_None_def scene_plain_listed)
  have n2: "\<forall>n. exists_supported ref_host_None n scene_plain \<noteq> Inr True"
    using n1 by (simp add: ref_host_None_exists_supported)
  then have i2: "\<forall>n. n \<in> (case None of None \<Rightarrow> {} | Some xs \<Rightarrow> set xs)
                    \<longleftrightarrow> exists_supported ref_host_None n scene_plain = Inr True"
    by simp
  from getSceneRBFNodes_supported [OF l0 i0]
  have 1: "getSceneRBFNodes ref_host scene0 = Inr ?xs"
    by (elim conjE exE) simp
  from getSceneRBFNodes_supported [OF l1 i1]
  have 2: "getSceneRBFNodes ref_host scene_plain = Inr []"
    by (elim conjE exE) simp
  from getSceneRBFNodes_supported [OF l2 i2]
  have 3: "getSceneRBFNodes ref_host_None scene_plain = Inr []"
    by (elim conjE exE) simp
  show ?thesis
    apply (intro conjI)
            apply (rule l0)
           apply (rule m0)
          apply (rule 1)
         apply (rule l1)
        apply (rule n1)
       apply (rule 2)
      apply (rule l2)
     apply (rule n2)
    apply (rule 3)
    done
qed

lemma with_setup_attr_filter:
  "with_setup_attr mc ys s = Inr ns \<Longrightarrow>
     ns = filter (\<lambda>n. mc_attributeQuery_ex mc RBF_SETUP_ATTR n s = Inr True) ys"
  by (induction ys arbitrary: ns) (auto split: sum.splits)

lemma with_setup_attr_total:
  "\<forall>n\<in>set ys. \<exists>b. mc_attributeQuery_ex mc RBF_SETUP_ATTR n s = Inr b \<Longrightarrow>
     \<exists>ns. with_setup_attr mc ys s = Inr ns"
  by (induction ys) (auto split: sum.splits)

text \<open>
  C9. Where the host's \<^verbatim>\<open>ls\<close> gives the list of the nodes that exist with a supported
  type, the iteration over the set goes through these nodes, and \<^verbatim>\<open>attributeQuery\<close>
  answers for each of them, \<^verbatim>\<open>getSceneSetupNodes\<close> returns a list, and a node is in it
  exactly when it is of a supported type and carries the attribute
  \<^verbatim>\<open>rbf_setup_name\<close>.
\<close>

theorem getSceneSetupNodes_exact:
  assumes "mc_ls_type mc SUPPORTED_RBF_NODES s = Inr (Some xs)"
    and "\<forall>n. n \<in> set xs \<longleftrightarrow> exists_supported mc n s = Inr True"
    and "set (set_iter mc xs) = set xs"
    and "\<forall>n\<in>set xs. \<exists>b. mc_attributeQuery_ex mc RBF_SETUP_ATTR n s = Inr b"
  shows "\<exists>ns. getSceneSetupNodes mc s = Inr ns
           \<and> (\<forall>n. n \<in> set ns \<longleftrightarrow>
                    exists_supported mc n s = Inr True
                    \<and> mc_attributeQuery_ex mc RBF_SETUP_ATTR n s = Inr True)"
proof -
  from assms(3,4)
  have "\<forall>n\<in>set (set_iter mc xs). \<exists>b. mc_attributeQuery_ex mc RBF_SETUP_ATTR n s = Inr b"
    by simp
  from with_setup_attr_total [OF this] obtain ns where
    ns: "with_setup_attr mc (set_iter mc xs) s = Inr ns" by blast
  from with_setup_attr_filter [OF ns] assms(2,3)
  have "\<forall>n. n \<in> set ns \<longleftrightarrow>
                    exists_supported mc n s = Inr True
                    \<and> mc_attributeQuery_ex mc RBF_SETUP_ATTR n s = Inr True"
    by auto
  moreover from ns assms(1) have "getSceneSetupNodes mc s = Inr ns"
    by (simp add: getSceneSetupNodes_def)
  ultimately show ?thesis by blast
qed

text \<open>Three of the four RBF nodes of the example scene carry a setup name.\<close>

theorem getSceneSetupNodes_witness:
  "mc_ls_type ref_host SUPPORTED_RBF_NODES scene0
     = Inr (Some [''armA_WD'', ''armB_WD'', ''armC_WD'', ''armD_WD''])
   \<and> (\<forall>n. n \<in> set [''armA_WD'', ''armB_WD'', ''armC_WD'', ''armD_WD'']
          \<longleftrightarrow> exists_supported ref_host n scene0 = Inr True)
   \<and> set (set_iter ref_host [''armA_WD'', ''armB_WD'', ''armC_WD'', ''armD_WD''])
       = set [''armA_WD'', ''armB_WD'', ''armC_WD'', ''armD_WD'']
   \<and> mc_attributeQuery_ex ref_host RBF_SETUP_ATTR ''armA_WD'' scene0 = Inr True
   \<and> mc_attributeQuery_ex ref_host RBF_SETUP_ATTR ''armB_WD'' scene0 = Inr True
   \<and> mc_attributeQuery_ex ref_host RBF_SETUP_ATTR ''armC_WD'' scene0 = Inr True
   \<and> mc_attributeQuery_ex ref_host RBF_SETUP_ATTR ''armD_WD'' scene0 = Inr False
   \<and> getSceneSetupNodes ref_host scene0 = Inr [''armA_WD'', ''armB_WD'', ''armC_WD'']
   \<and> (\<forall>n. n \<in> set [''armA_WD'', ''armB_WD'', ''armC_WD'']
          \<longleftrightarrow> exists_supported ref_host n scene0 = Inr True
              \<and> mc_attributeQuery_ex ref_host RBF_SETUP_ATTR n scene0 = Inr True)"
proof -
  let ?xs = "[''armA_WD'', ''armB_WD'', ''armC_WD'', ''armD_WD'']"
  have l0: "mc_ls_type ref_host SUPPORTED_RBF_NODES scene0 = Inr (Some ?xs)"
    by (simp add: ref_ls_type_eq scene0_listed)
  have i0: "\<forall>n. n \<in> set ?xs \<longleftrightarrow> exists_supported ref_host n scene0 = Inr True"
    using ref_listed_iff [of _ scene0] by (simp only: scene0_listed) simp
  have s0: "set (set_iter ref_host ?xs) = set ?xs"
    by (simp add: ref_host_def)
  have qa: "mc_attributeQuery_ex ref_host RBF_SETUP_ATTR ''armA_WD'' scene0 = Inr True"
    by (simp add: ref_host_def ref_attributeQuery_ex_def scene0_def RBF_SETUP_ATTR_def)
  have qb: "mc_attributeQuery_ex ref_host RBF_SETUP_ATTR ''armB_WD'' scene0 = Inr True"
    by (simp add: ref_host_def ref_attributeQuery_ex_def scene0_def RBF_SETUP_ATTR_def)
  have qc: "mc_attributeQuery_ex ref_host RBF_SETUP_ATTR ''armC_WD'' scene0 = Inr True"
    by (simp add: ref_host_def ref_attributeQuery_ex_def scene0_def RBF_SETUP_ATTR_def)
  have qd: "mc_attributeQuery_ex ref_host RBF_SETUP_ATTR ''armD_WD'' scene0 = Inr False"
    by (simp add: ref_host_def ref_attributeQuery_ex_def scene0_def RBF_SETUP_ATTR_def)
  have q: "\<forall>n\<in>set ?xs. \<exists>b. mc_attributeQuery_ex ref_host RBF_SETUP_ATTR n scene0 = Inr b"
    using qa qb qc qd by auto
  have r: "getSceneSetupNodes ref_host scene0 = Inr [''armA_WD'', ''armB_WD'', ''armC_WD'']"
    using l0 qa qb qc qd by (simp add: getSceneSetupNodes_def) (simp add: ref_host_def)
  from getSceneSetupNodes_exact [OF l0 i0 s0 q] r
  have e: "\<forall>n. n \<in> set [''armA_WD'', ''armB_WD'', ''armC_WD'']
          \<longleftrightarrow> exists_supported ref_host n scene0 = Inr True
              \<and> mc_attributeQuery_ex ref_host RBF_SETUP_ATTR n scene0 = Inr True"
    by (elim exE conjE) simp
  show ?thesis
    apply (intro conjI)
            apply (rule l0)
           apply (rule i0)
          apply (rule s0)
         apply (rule qa)
        apply (rule qb)
       apply (rule qc)
      apply (rule qd)
     apply (rule r)
    apply (rule e)
    done
qed

section \<open>The setups of the scene\<close>

lemma setups_loop_step:
  assumes "mc_getAttr mc (n @ ''.'' @ RBF_SETUP_ATTR) s = Inr v" and "hashable v"
    and "map_of d (PStr ''empty'') \<noteq> None"
  shows "setups_loop mc (n # rest) d s =
           setups_loop mc rest
             (AList.update (node_key mc s n)
                ((case map_of d (node_key mc s n) of None \<Rightarrow> [] | Some l \<Rightarrow> l) @ [n]) d) s"
  using assms
  by (auto simp add: plug_name_eq node_key_def setup_key_def split: option.splits)

lemma setups_loop_invariant:
  assumes "\<forall>n\<in>set ns. \<exists>v. mc_getAttr mc (n @ ''.'' @ RBF_SETUP_ATTR) s = Inr v \<and> hashable v"
    and "map_of d (PStr ''empty'') \<noteq> None" and "distinct (map fst d)"
  shows "\<exists>d'. setups_loop mc ns d s = Inr d' \<and> distinct (map fst d')
           \<and> (\<forall>k. map_of d' k =
                 (if map_of d k = None \<and> (\<forall>n\<in>set ns. node_key mc s n \<noteq> k) then None
                  else Some ((case map_of d k of None \<Rightarrow> [] | Some l \<Rightarrow> l)
                             @ filter (\<lambda>n. node_key mc s n = k) ns)))"
  using assms
proof (induction ns arbitrary: d)
  case Nil
  then show ?case by (auto split: option.splits)
next
  case (Cons n ns)
  from Cons.prems(1) obtain v where
    v: "mc_getAttr mc (n @ ''.'' @ RBF_SETUP_ATTR) s = Inr v" "hashable v" by auto
  let ?k = "node_key mc s n"
  let ?d1 = "AList.update ?k ((case map_of d ?k of None \<Rightarrow> [] | Some l \<Rightarrow> l) @ [n]) d"
  have step: "setups_loop mc (n # ns) d s = setups_loop mc ns ?d1 s"
    by (rule setups_loop_step [OF v Cons.prems(2)])
  have m1: "map_of ?d1 = (map_of d)(?k \<mapsto> (case map_of d ?k of None \<Rightarrow> [] | Some l \<Rightarrow> l) @ [n])"
    by (rule update_conv')
  have e1: "map_of ?d1 (PStr ''empty'') \<noteq> None"
    using Cons.prems(2) by (simp add: m1)
  have d1: "distinct (map fst ?d1)"
    using Cons.prems(3) by (rule distinct_update)
  from Cons.prems(1) have rest: "\<forall>n\<in>set ns. \<exists>v. mc_getAttr mc (n @ ''.'' @ RBF_SETUP_ATTR) s = Inr v \<and> hashable v"
    by simp
  from Cons.IH [OF rest e1 d1] obtain d' where
    r: "setups_loop mc ns ?d1 s = Inr d'" and dd: "distinct (map fst d')"
    and m: "\<forall>k. map_of d' k =
                 (if map_of ?d1 k = None \<and> (\<forall>n\<in>set ns. node_key mc s n \<noteq> k) then None
                  else Some ((case map_of ?d1 k of None \<Rightarrow> [] | Some l \<Rightarrow> l)
                             @ filter (\<lambda>n. node_key mc s n = k) ns))"
    by blast
  have "\<forall>k. map_of d' k =
                 (if map_of d k = None \<and> (\<forall>n\<in>set (n # ns). node_key mc s n \<noteq> k) then None
                  else Some ((case map_of d k of None \<Rightarrow> [] | Some l \<Rightarrow> l)
                             @ filter (\<lambda>n. node_key mc s n = k) (n # ns)))"
  proof
    fix k
    show "map_of d' k =
                 (if map_of d k = None \<and> (\<forall>n\<in>set (n # ns). node_key mc s n \<noteq> k) then None
                  else Some ((case map_of d k of None \<Rightarrow> [] | Some l \<Rightarrow> l)
                             @ filter (\<lambda>n. node_key mc s n = k) (n # ns)))"
    proof (cases "k = ?k")
      case True
      then show ?thesis using m [rule_format, of k] by (simp add: m1)
    next
      case False
      then show ?thesis using m [rule_format, of k] by (simp add: m1)
    qed
  qed
  with step r dd show ?case by simp
qed

lemma count_list_filter:
  "count_list (filter P xs) x = (if P x then count_list xs x else 0)"
  by (induction xs) auto

lemma count_list_distinct:
  "distinct xs \<Longrightarrow> x \<in> set xs \<Longrightarrow> count_list xs x = 1"
  by (induction xs) auto

lemma getSceneSetupNodes_filter:
  assumes "mc_ls_type mc SUPPORTED_RBF_NODES s = Inr (Some xs)"
    and "getSceneSetupNodes mc s = Inr ns"
  shows "ns = filter (\<lambda>n. mc_attributeQuery_ex mc RBF_SETUP_ATTR n s = Inr True)
                (set_iter mc xs)"
  using assms by (simp add: getSceneSetupNodes_def with_setup_attr_filter)

text \<open>
  C10, as amended. Let \<open>ns\<close> be the nodes \<^verbatim>\<open>getSceneSetupNodes\<close> returns, each with a
  hashable setup name; the key of a node is its setup name, and \<^verbatim>\<open>"empty"\<close> for the
  empty string. With \<^verbatim>\<open>includeEmpty\<close> true, \<^verbatim>\<open>getRbfSceneSetupsInfo\<close> returns a dict in
  which every node of \<open>ns\<close> is once in the list under its key and in no other list,
  and whose lists hold nodes of \<open>ns\<close> only. With \<^verbatim>\<open>includeEmpty\<close> false it returns that
  dict without the key \<^verbatim>\<open>"empty"\<close>: the key is absent, so a node with the empty setup
  name is in no list, and a node whose key is not \<^verbatim>\<open>"empty"\<close> is once in the list under
  its key and in no other list.
\<close>

theorem getRbfSceneSetupsInfo_partition:
  assumes "mc_ls_type mc SUPPORTED_RBF_NODES s = Inr (Some xs)"
    and "distinct (set_iter mc xs)"
    and "getSceneSetupNodes mc s = Inr ns"
    and "\<forall>n\<in>set ns. \<exists>v. mc_getAttr mc (n @ ''.'' @ RBF_SETUP_ATTR) s = Inr v \<and> hashable v"
  shows "\<exists>d. getRbfSceneSetupsInfo mc True s = Inr d
           \<and> distinct (map fst d)
           \<and> (\<forall>n\<in>set ns. \<exists>l. map_of d (node_key mc s n) = Some l)
           \<and> (\<forall>n\<in>set ns. \<forall>k l. map_of d k = Some l \<longrightarrow>
                  count_list l n = (if k = node_key mc s n then 1 else 0))
           \<and> (\<forall>k l. map_of d k = Some l \<longrightarrow> set l \<subseteq> set ns)
           \<and> getRbfSceneSetupsInfo mc False s = Inr (AList.delete (PStr ''empty'') d)
           \<and> (\<forall>k. map_of (AList.delete (PStr ''empty'') d) k
                    = (if k = PStr ''empty'' then None else map_of d k))
           \<and> (\<forall>n\<in>set ns. node_key mc s n \<noteq> PStr ''empty'' \<longrightarrow>
                  (\<exists>l. map_of (AList.delete (PStr ''empty'') d) (node_key mc s n) = Some l))
           \<and> (\<forall>n\<in>set ns. \<forall>k l. map_of (AList.delete (PStr ''empty'') d) k = Some l \<longrightarrow>
                  count_list l n = (if k = node_key mc s n then 1 else 0))"
proof -
  have dist: "distinct ns"
    using getSceneSetupNodes_filter [OF assms(1,3)] assms(2) by simp
  let ?d0 = "[(PStr ''empty'', [])] :: setups"
  have e0: "map_of ?d0 (PStr ''empty'') \<noteq> None"
    by simp
  have d0: "distinct (map fst ?d0)"
    by simp
  from setups_loop_invariant [OF assms(4) e0 d0] obtain d where
    loop: "setups_loop mc ns ?d0 s = Inr d"
    and dd: "distinct (map fst d)"
    and m: "\<forall>k. map_of d k =
              (if map_of ?d0 k = None \<and> (\<forall>n\<in>set ns. node_key mc s n \<noteq> k)
               then None
               else Some ((case map_of ?d0 k of None \<Rightarrow> [] | Some l \<Rightarrow> l)
                          @ filter (\<lambda>n. node_key mc s n = k) ns))"
    by blast
  have m': "\<And>k. map_of d k =
              (if k \<noteq> PStr ''empty'' \<and> (\<forall>n\<in>set ns. node_key mc s n \<noteq> k) then None
               else Some (filter (\<lambda>n. node_key mc s n = k) ns))"
    using m by (simp split: if_splits)
  have t: "getRbfSceneSetupsInfo mc True s = Inr d"
    using assms(3) loop by (simp add: getRbfSceneSetupsInfo_def)
  have em: "map_of d (PStr ''empty'') \<noteq> None"
    by (simp add: m')
  have f: "getRbfSceneSetupsInfo mc False s = Inr (AList.delete (PStr ''empty'') d)"
    using assms(3) loop em by (auto simp add: getRbfSceneSetupsInfo_def)
  have p1: "\<forall>n\<in>set ns. \<exists>l. map_of d (node_key mc s n) = Some l"
    by (auto simp add: m')
  have p2: "\<forall>n\<in>set ns. \<forall>k l. map_of d k = Some l \<longrightarrow>
                  count_list l n = (if k = node_key mc s n then 1 else 0)"
    using dist by (auto simp add: m' count_list_filter count_list_distinct split: if_splits)
  have p3: "\<forall>k l. map_of d k = Some l \<longrightarrow> set l \<subseteq> set ns"
    by (auto simp add: m' split: if_splits)
  have p4: "\<forall>k. map_of (AList.delete (PStr ''empty'') d) k
                    = (if k = PStr ''empty'' then None else map_of d k)"
    by (simp add: delete_conv')
  have p5: "\<forall>n\<in>set ns. node_key mc s n \<noteq> PStr ''empty'' \<longrightarrow>
                  (\<exists>l. map_of (AList.delete (PStr ''empty'') d) (node_key mc s n) = Some l)"
    using p1 p4 by simp
  have p6: "\<forall>n\<in>set ns. \<forall>k l. map_of (AList.delete (PStr ''empty'') d) k = Some l \<longrightarrow>
                  count_list l n = (if k = node_key mc s n then 1 else 0)"
  proof (intro ballI allI impI)
    fix n k l
    assume n: "n \<in> set ns" and l: "map_of (AList.delete (PStr ''empty'') d) k = Some l"
    from l p4 have "map_of d k = Some l"
      by (simp split: if_splits)
    with p2 n show "count_list l n = (if k = node_key mc s n then 1 else 0)"
      by blast
  qed
  show ?thesis
    apply (rule exI [of _ d])
    apply (intro conjI)
            apply (rule t)
           apply (rule dd)
          apply (rule p1)
         apply (rule p2)
        apply (rule p3)
       apply (rule f)
      apply (rule p4)
     apply (rule p5)
    apply (rule p6)
    done
qed

text \<open>
  C10 as it is written fails when \<^verbatim>\<open>includeEmpty\<close> is false. On the example scene
  \<^verbatim>\<open>getSceneSetupNodes\<close> returns three nodes; the first has the empty setup name and the
  second the setup name \<^verbatim>\<open>"empty"\<close>, and neither is in a list of the dict returned.
\<close>

theorem getRbfSceneSetupsInfo_counterexample:
  "getSceneSetupNodes ref_host scene0 = Inr [''armA_WD'', ''armB_WD'', ''armC_WD'']
   \<and> getSetupName ref_host ''armA_WD'' scene0 = Inr (PStr [])
   \<and> getSetupName ref_host ''armB_WD'' scene0 = Inr (PStr ''empty'')
   \<and> getRbfSceneSetupsInfo ref_host False scene0 = Inr [(PStr ''arm'', [''armC_WD''])]
   \<and> \<not> (\<exists>k l. map_of [(PStr ''arm'', [''armC_WD''])] k = Some l \<and> ''armA_WD'' \<in> set l)
   \<and> \<not> (\<exists>k l. map_of [(PStr ''arm'', [''armC_WD''])] k = Some l \<and> ''armB_WD'' \<in> set l)"
proof -
  have r: "getSceneSetupNodes ref_host scene0 = Inr [''armA_WD'', ''armB_WD'', ''armC_WD'']"
    by (simp add: getSceneSetupNodes_def ref_ls_type_eq scene0_listed)
      (simp add: ref_host_def ref_attributeQuery_ex_def scene0_def RBF_SETUP_ATTR_def)
  have a: "getSetupName ref_host ''armA_WD'' scene0 = Inr (PStr [])"
    by (simp add: getSetupName_def plug_name_eq ref_host_def ref_attributeQuery_ex_def
        ref_getAttr_def scene0_def RBF_SETUP_ATTR_def)
  have b: "getSetupName ref_host ''armB_WD'' scene0 = Inr (PStr ''empty'')"
    by (simp add: getSetupName_def plug_name_eq ref_host_def ref_attributeQuery_ex_def
        ref_getAttr_def scene0_def RBF_SETUP_ATTR_def)
  have ga: "mc_getAttr ref_host (''armA_WD'' @ ''.'' @ RBF_SETUP_ATTR) scene0 = Inr (PStr [])"
    by (simp add: ref_host_def ref_getAttr_def scene0_def RBF_SETUP_ATTR_def)
  have gb: "mc_getAttr ref_host (''armB_WD'' @ ''.'' @ RBF_SETUP_ATTR) scene0
              = Inr (PStr ''empty'')"
    by (simp add: ref_host_def ref_getAttr_def scene0_def RBF_SETUP_ATTR_def)
  have gc: "mc_getAttr ref_host (''armC_WD'' @ ''.'' @ RBF_SETUP_ATTR) scene0
              = Inr (PStr ''arm'')"
    by (simp add: ref_host_def ref_getAttr_def scene0_def RBF_SETUP_ATTR_def)
  have f: "getRbfSceneSetupsInfo ref_host False scene0 = Inr [(PStr ''arm'', [''armC_WD''])]"
    using r ga gb gc by (simp add: getRbfSceneSetupsInfo_def plug_name_eq AList.delete_eq)
  have na: "\<not> (\<exists>k l. map_of [(PStr ''arm'', [''armC_WD''])] k = Some l \<and> ''armA_WD'' \<in> set l)"
    by (auto split: if_splits)
  have nb: "\<not> (\<exists>k l. map_of [(PStr ''arm'', [''armC_WD''])] k = Some l \<and> ''armB_WD'' \<in> set l)"
    by (auto split: if_splits)
  show ?thesis
    apply (intro conjI)
         apply (rule r)
        apply (rule a)
       apply (rule b)
      apply (rule f)
     apply (rule na)
    apply (rule nb)
    done
qed

text \<open>On the example scene the nodes with the setup names \<^verbatim>\<open>""\<close> and \<^verbatim>\<open>"empty"\<close>
  share the list under \<^verbatim>\<open>"empty"\<close>, which is gone when \<^verbatim>\<open>includeEmpty\<close> is false.\<close>

theorem getRbfSceneSetupsInfo_witness:
  "mc_ls_type ref_host SUPPORTED_RBF_NODES scene0
     = Inr (Some [''armA_WD'', ''armB_WD'', ''armC_WD'', ''armD_WD''])
   \<and> distinct (set_iter ref_host [''armA_WD'', ''armB_WD'', ''armC_WD'', ''armD_WD''])
   \<and> getSceneSetupNodes ref_host scene0 = Inr [''armA_WD'', ''armB_WD'', ''armC_WD'']
   \<and> mc_getAttr ref_host (''armA_WD'' @ ''.'' @ RBF_SETUP_ATTR) scene0 = Inr (PStr [])
   \<and> mc_getAttr ref_host (''armB_WD'' @ ''.'' @ RBF_SETUP_ATTR) scene0 = Inr (PStr ''empty'')
   \<and> mc_getAttr ref_host (''armC_WD'' @ ''.'' @ RBF_SETUP_ATTR) scene0 = Inr (PStr ''arm'')
   \<and> getRbfSceneSetupsInfo ref_host True scene0
       = Inr [(PStr ''empty'', [''armA_WD'', ''armB_WD'']), (PStr ''arm'', [''armC_WD''])]
   \<and> getRbfSceneSetupsInfo ref_host False scene0 = Inr [(PStr ''arm'', [''armC_WD''])]"
proof -
  let ?xs = "[''armA_WD'', ''armB_WD'', ''armC_WD'', ''armD_WD'']"
  let ?ns = "[''armA_WD'', ''armB_WD'', ''armC_WD'']"
  have l0: "mc_ls_type ref_host SUPPORTED_RBF_NODES scene0 = Inr (Some ?xs)"
    by (simp add: ref_ls_type_eq scene0_listed)
  have d0: "distinct (set_iter ref_host ?xs)"
    by (simp add: ref_host_def)
  have r: "getSceneSetupNodes ref_host scene0 = Inr ?ns"
    using l0 by (simp add: getSceneSetupNodes_def)
      (simp add: ref_host_def ref_attributeQuery_ex_def scene0_def RBF_SETUP_ATTR_def)
  have ga: "mc_getAttr ref_host (''armA_WD'' @ ''.'' @ RBF_SETUP_ATTR) scene0 = Inr (PStr [])"
    by (simp add: ref_host_def ref_getAttr_def scene0_def RBF_SETUP_ATTR_def)
  have gb: "mc_getAttr ref_host (''armB_WD'' @ ''.'' @ RBF_SETUP_ATTR) scene0 = Inr (PStr ''empty'')"
    by (simp add: ref_host_def ref_getAttr_def scene0_def RBF_SETUP_ATTR_def)
  have gc: "mc_getAttr ref_host (''armC_WD'' @ ''.'' @ RBF_SETUP_ATTR) scene0 = Inr (PStr ''arm'')"
    by (simp add: ref_host_def ref_getAttr_def scene0_def RBF_SETUP_ATTR_def)
  have h: "\<forall>n\<in>set ?ns. \<exists>v. mc_getAttr ref_host (n @ ''.'' @ RBF_SETUP_ATTR) scene0 = Inr v
              \<and> hashable v"
    using ga gb gc by auto
  have t: "getRbfSceneSetupsInfo ref_host True scene0
       = Inr [(PStr ''empty'', [''armA_WD'', ''armB_WD'']), (PStr ''arm'', [''armC_WD''])]"
    using r ga gb gc by (simp add: getRbfSceneSetupsInfo_def plug_name_eq)
  from getRbfSceneSetupsInfo_partition [OF l0 d0 r h] obtain d where
    td: "getRbfSceneSetupsInfo ref_host True scene0 = Inr d"
    and fd: "getRbfSceneSetupsInfo ref_host False scene0 = Inr (AList.delete (PStr ''empty'') d)"
    by (elim exE conjE)
  from td t have "d = [(PStr ''empty'', [''armA_WD'', ''armB_WD'']), (PStr ''arm'', [''armC_WD''])]"
    by simp
  with fd
  have f: "getRbfSceneSetupsInfo ref_host False scene0 = Inr [(PStr ''arm'', [''armC_WD''])]"
    by (simp add: AList.delete_eq)
  show ?thesis
    apply (intro conjI)
           apply (rule l0)
          apply (rule d0)
         apply (rule r)
        apply (rule ga)
       apply (rule gb)
      apply (rule gc)
     apply (rule t)
    apply (rule f)
    done
qed

end
